theory Spec2Isabelle
  imports Complex_Main "HOL-Library.Finite_Map" "HOL-Library.Monad_Syntax"
begin

unbundle bit_operations_syntax

section \<open>JavaScript values\<close>

text \<open>
  The migration module works on plain data: documents read from storage, that is, trees of
  objects, arrays, strings, numbers, booleans and \<^verbatim>\<open>null\<close>, and \<^verbatim>\<open>undefined\<close> for a property
  that is not there. A number is a double: \<^verbatim>\<open>NaN\<close>, the two infinities, or a finite value,
  which is a rational (the module compares numbers and never computes with them; \<^verbatim>\<open>-0\<close> is
  not told apart from \<^verbatim>\<open>0\<close>, the module has no operation that would). An object is a finite map
  from property names to values: the order of its keys is not modelled, and two objects are
  equal when they have the same properties. A string is a list of characters; a literal of the
  source outside ASCII is given by the bytes of its UTF-8 encoding.
\<close>

datatype jsnum = NaN | NegInf | Fin rat | PosInf

datatype jsval =
    JUndefined
  | JNull
  | JBool bool
  | JNum jsnum
  | JStr string
  | JArr "jsval list"
  | JObj "(string, jsval) fmap"

text \<open>
  The platform's two conversions between numbers and strings (\<^verbatim>\<open>Number.prototype.toString\<close>
  and the grammar of numeric string literals) are parameters of the model.
\<close>

record platform =
  number_to_string :: "jsnum \<Rightarrow> string"
  string_to_number :: "string \<Rightarrow> jsnum"

text \<open>\<^verbatim>\<open>!!v\<close>: the falsy values are undefined, null, false, 0, NaN and the empty string.\<close>

fun truthy :: "jsval \<Rightarrow> bool" where
  "truthy JUndefined = False"
| "truthy JNull = False"
| "truthy (JBool b) = b"
| "truthy (JNum n) = (n \<noteq> NaN \<and> n \<noteq> Fin 0)"
| "truthy (JStr s) = (s \<noteq> [])"
| "truthy (JArr xs) = True"
| "truthy (JObj m) = True"

text \<open>\<^verbatim>\<open>typeof v === 'object'\<close> holds of null, of arrays and of objects.\<close>

fun typeof_object :: "jsval \<Rightarrow> bool" where
  "typeof_object JNull = True"
| "typeof_object (JArr xs) = True"
| "typeof_object (JObj m) = True"
| "typeof_object v = False"

fun typeof_number :: "jsval \<Rightarrow> bool" where
  "typeof_number (JNum n) = True"
| "typeof_number v = False"

fun isArray :: "jsval \<Rightarrow> bool" where
  "isArray (JArr xs) = True"
| "isArray v = False"

text \<open>
  A property read \<^verbatim>\<open>v.k\<close>, for the property names of this module (none is an array index,
  \<^verbatim>\<open>length\<close> or a member of a prototype): it throws a TypeError, the value \<open>None\<close>, on null
  and undefined; it is the property of an object, or undefined when the object has none of
  that name; it is undefined on every other value.
\<close>

fun get :: "jsval \<Rightarrow> string \<Rightarrow> jsval option" where
  "get JUndefined k = None"
| "get JNull k = None"
| "get (JObj m) k = Some (case fmlookup m k of None \<Rightarrow> JUndefined | Some x \<Rightarrow> x)"
| "get v k = Some JUndefined"

text \<open>
  The optional read \<^verbatim>\<open>v?.k\<close>, undefined on null and undefined. It is also the read \<^verbatim>\<open>v.k\<close>
  at every place where the source has tested \<^verbatim>\<open>v\<close> to be truthy just before.
\<close>

fun opt_get :: "jsval \<Rightarrow> string \<Rightarrow> jsval" where
  "opt_get (JObj m) k = (case fmlookup m k of None \<Rightarrow> JUndefined | Some x \<Rightarrow> x)"
| "opt_get v k = JUndefined"

text \<open>\<^verbatim>\<open>n >= c\<close> on numbers: false on NaN.\<close>

fun num_ge :: "jsnum \<Rightarrow> rat \<Rightarrow> bool" where
  "num_ge NaN c = False"
| "num_ge NegInf c = False"
| "num_ge (Fin q) c = (c \<le> q)"
| "num_ge PosInf c = True"

text \<open>
  \<^verbatim>\<open>Array.prototype.join\<close> with a comma, on the strings of the elements.
\<close>

fun join_comma :: "string list \<Rightarrow> string" where
  "join_comma [] = []"
| "join_comma [s] = s"
| "join_comma (s # t # ss) = s @ '','' @ join_comma (t # ss)"

text \<open>
  The string of a value, as a template literal takes it: an array is the join of its
  elements, where null and undefined give the empty string, and an object is
  \<^verbatim>\<open>[object Object]\<close>.
\<close>

primrec to_string :: "platform \<Rightarrow> jsval \<Rightarrow> string" where
  "to_string pf JUndefined = ''undefined''"
| "to_string pf JNull = ''null''"
| "to_string pf (JBool b) = (if b then ''true'' else ''false'')"
| "to_string pf (JNum n) = number_to_string pf n"
| "to_string pf (JStr s) = s"
| "to_string pf (JArr xs) =
     join_comma (map2 (\<lambda>x s. if x = JUndefined \<or> x = JNull then [] else s)
                      xs (map (to_string pf) xs))"
| "to_string pf (JObj m) = ''[object Object]''"


text \<open>
  The values of a set and the keys of a map are compared by SameValueZero, and \<^verbatim>\<open>===\<close>
  differs from it on NaN only. Both compare an array or an object by reference. The values
  here are trees, in which every array and every object is a reference of its own, so an
  array or an object is the same as no value met elsewhere.
\<close>

fun is_reference :: "jsval \<Rightarrow> bool" where
  "is_reference (JArr xs) = True"
| "is_reference (JObj m) = True"
| "is_reference v = False"

definition same_value_zero :: "jsval \<Rightarrow> jsval \<Rightarrow> bool" where
  "same_value_zero a b = (a = b \<and> \<not> is_reference a)"

definition strict_eq :: "jsval \<Rightarrow> jsval \<Rightarrow> bool" where
  "strict_eq a b = (a = b \<and> \<not> is_reference a \<and> a \<noteq> JNum NaN)"

text \<open>
  A \<^verbatim>\<open>Set\<close> is the list of its values in insertion order; \<^verbatim>\<open>new Set(xs)\<close> adds the
  elements of \<^verbatim>\<open>xs\<close> one by one, and \<^verbatim>\<open>Array.from\<close> reads the list back.
\<close>

definition set_has :: "jsval list \<Rightarrow> jsval \<Rightarrow> bool" where
  "set_has s v = list_ex (\<lambda>x. same_value_zero x v) s"

definition set_add :: "jsval list \<Rightarrow> jsval \<Rightarrow> jsval list" where
  "set_add s v = (if set_has s v then s else s @ [v])"

definition new_Set :: "jsval list \<Rightarrow> jsval list" where
  "new_Set xs = foldl set_add [] xs"

text \<open>\<^verbatim>\<open>v || []\<close>, \<^verbatim>\<open>v || {}\<close> and \<^verbatim>\<open>v || ''\<close>.\<close>

definition or_array :: "jsval \<Rightarrow> jsval" where
  "or_array v = (if truthy v then v else JArr [])"

definition or_object :: "jsval \<Rightarrow> jsval" where
  "or_object v = (if truthy v then v else JObj fmempty)"

definition or_string :: "jsval \<Rightarrow> jsval" where
  "or_string v = (if truthy v then v else JStr [])"

text \<open>
  The elements a call of \<^verbatim>\<open>map\<close>, \<^verbatim>\<open>filter\<close> or \<^verbatim>\<open>forEach\<close> on \<^verbatim>\<open>v\<close> runs over: only an array
  has these methods, on any other value the call throws.
\<close>

fun array_method :: "jsval \<Rightarrow> jsval list option" where
  "array_method (JArr xs) = Some xs"
| "array_method v = None"

text \<open>
  The elements of \<^verbatim>\<open>[...v]\<close>: an array and a string are iterable, any other value
  throws. A string is iterated character by character, which is what JavaScript does on
  ASCII text.
\<close>

fun array_spread :: "jsval \<Rightarrow> jsval list option" where
  "array_spread (JArr xs) = Some xs"
| "array_spread (JStr s) = Some (map (\<lambda>c. JStr [c]) s)"
| "array_spread v = None"

text \<open>
  A digit, for \<open>d < 16\<close> (every caller passes one), and the decimal string of an array index.
\<close>

definition digit :: "nat \<Rightarrow> char" where
  "digit d = ''0123456789abcdef'' ! d"

function index_string :: "nat \<Rightarrow> string" where
  "index_string n = (if n < 10 then [digit n] else index_string (n div 10) @ [digit (n mod 10)])"
  by pat_completeness auto
termination
  by (relation "measure id") auto

text \<open>
  The properties \<^verbatim>\<open>{...v}\<close> copies: those of an object, the elements of an array and the
  characters of a string under their indices, none of any other value.
\<close>

definition indexed :: "jsval list \<Rightarrow> (string, jsval) fmap" where
  "indexed xs = fmap_of_list (zip (map index_string [0..<length xs]) xs)"

fun object_spread :: "jsval \<Rightarrow> (string, jsval) fmap" where
  "object_spread (JObj m) = m"
| "object_spread (JArr xs) = indexed xs"
| "object_spread (JStr s) = indexed (map (\<lambda>c. JStr [c]) s)"
| "object_spread v = fmempty"

section \<open>The identifier generator and the clock\<close>

text \<open>
  The module draws on three sources of its platform: \<^verbatim>\<open>crypto.randomUUID\<close>, which may be
  missing, \<^verbatim>\<open>Math.random\<close> and the clock. Each is the sequence of the values it returns, and
  the world records how many values have been taken from each. \<open>randoms\<close> is the sequence of
  \<^verbatim>\<open>(Math.random() * 16) | 0\<close>, an integer from 0 to 15, read modulo 16.
\<close>

record world =
  crypto_uuids :: "(nat \<Rightarrow> string) option"
  randoms :: "nat \<Rightarrow> nat"
  clock :: "nat \<Rightarrow> string"
  uuid_calls :: nat
  random_calls :: nat
  clock_calls :: nat

text \<open>The fallback of \<^verbatim>\<open>generateId\<close>: every x and y of the pattern is replaced.\<close>

fun replace_xy :: "(nat \<Rightarrow> nat) \<Rightarrow> nat \<Rightarrow> string \<Rightarrow> string \<times> nat" where
  "replace_xy rs n [] = ([], n)"
| "replace_xy rs n (c # cs) =
     (if c = CHR ''x'' \<or> c = CHR ''y'' then
        (let r = rs n mod 16;
             v = (if c = CHR ''x'' then r else (r AND 3) OR 8);
             (rest, n') = replace_xy rs (Suc n) cs
         in (digit v # rest, n'))
      else
        (let (rest, n') = replace_xy rs n cs in (c # rest, n')))"

definition generateId :: "world \<Rightarrow> string \<times> world" where
  "generateId w =
     (case crypto_uuids w of
        Some uuid \<Rightarrow> (uuid (uuid_calls w), w\<lparr>uuid_calls := Suc (uuid_calls w)\<rparr>)
      | None \<Rightarrow>
          (let (s, n) = replace_xy (randoms w) (random_calls w)
                          ''xxxxxxxx-xxxx-4xxx-yxxx-xxxxxxxxxxxx''
           in (s, w\<lparr>random_calls := n\<rparr>)))"

text \<open>\<^verbatim>\<open>new Date().toISOString()\<close>.\<close>

definition now_iso :: "world \<Rightarrow> string \<times> world" where
  "now_iso w = (clock w (clock_calls w), w\<lparr>clock_calls := Suc (clock_calls w)\<rparr>)"

section \<open>The factory, the migrator and the detector\<close>

definition name_default :: string where
  "name_default = [CHR 0xE9, CHR 0xBB, CHR 0x98, CHR 0xE8, CHR 0xAE, CHR 0xA4,
                   CHR 0xE8, CHR 0xB4, CHR 0xA6, CHR 0xE6, CHR 0x9C, CHR 0xAC]"

definition name_new :: string where
  "name_new = [CHR 0xE6, CHR 0x96, CHR 0xB0, CHR 0xE8, CHR 0xB4, CHR 0xA6,
               CHR 0xE6, CHR 0x9C, CHR 0xAC]"

definition name_unnamed :: string where
  "name_unnamed = [CHR 0xE6, CHR 0x9C, CHR 0xAA, CHR 0xE5, CHR 0x91, CHR 0xBD,
                   CHR 0xE5, CHR 0x90, CHR 0x8D, CHR 0xE8, CHR 0xB4, CHR 0xA6,
                   CHR 0xE6, CHR 0x9C, CHR 0xAC]"

text \<open>The object literals of a portfolio and of a document.\<close>

definition portfolio_literal ::
  "jsval \<Rightarrow> jsval \<Rightarrow> jsval \<Rightarrow> jsval \<Rightarrow> jsval \<Rightarrow> jsval \<Rightarrow> jsval \<Rightarrow> jsval \<Rightarrow> jsval" where
  "portfolio_literal pid pname created funds favorites groups holdings pending =
     JObj (fmap_of_list
       [(''id'', pid), (''name'', pname), (''createdAt'', created), (''funds'', funds),
        (''favorites'', favorites), (''groups'', groups), (''holdings'', holdings),
        (''pendingTrades'', pending)])"

definition document_literal :: "jsval \<Rightarrow> jsval \<Rightarrow> jsval \<Rightarrow> jsval" where
  "document_literal ver refresh ports =
     JObj (fmap_of_list [(''version'', ver), (''refreshMs'', refresh), (''portfolios'', ports)])"

text \<open>
  The guards every field goes through: \<^verbatim>\<open>typeof r === 'number' && r >= 5000 ? r : 30000\<close>,
  \<^verbatim>\<open>Array.isArray(v) ? v : []\<close> and
  \<^verbatim>\<open>v && typeof v === 'object' && !Array.isArray(v) ? v : {}\<close>.
\<close>

definition refresh_or_default :: "jsval \<Rightarrow> jsval" where
  "refresh_or_default r =
     (if typeof_number r \<and> (case r of JNum n \<Rightarrow> num_ge n 5000 | _ \<Rightarrow> False) then r
      else JNum (Fin 30000))"

definition array_or_empty :: "jsval \<Rightarrow> jsval" where
  "array_or_empty v = (if isArray v then v else JArr [])"

definition holdings_or_empty :: "jsval \<Rightarrow> jsval" where
  "holdings_or_empty v =
     (if truthy v \<and> typeof_object v \<and> \<not> isArray v then v else JObj fmempty)"

definition createPortfolio :: "world \<Rightarrow> jsval \<Rightarrow> jsval \<times> world" where
  "createPortfolio w name =
     (let (pid, w1) = generateId w;
          (now, w2) = now_iso w1
      in (portfolio_literal (JStr pid) (if truthy name then name else JStr name_new) (JStr now)
            (JArr []) (JArr []) (JArr []) (JObj fmempty) (JArr []), w2))"

definition createEmptyV2Data :: "world \<Rightarrow> jsval \<times> world" where
  "createEmptyV2Data w =
     (let (portfolioId, w1) = generateId w;
          (now, w2) = now_iso w1
      in (document_literal (JNum (Fin 2)) (JNum (Fin 30000))
            (JArr [portfolio_literal (JStr portfolioId) (JStr name_default) (JStr now)
                     (JArr []) (JArr []) (JArr []) (JObj fmempty) (JArr [])]), w2))"




section \<open>The validator\<close>

text \<open>
  The callback of \<^verbatim>\<open>data.portfolios.map\<close>, field by field: the first read throws when
  the element is null or undefined; an identifier and a time are taken only for a falsy field.
\<close>

definition repair_portfolio :: "world \<Rightarrow> jsval \<Rightarrow> (jsval \<times> world) option" where
  "repair_portfolio w p =
     do {
       pid \<leftarrow> get p ''id'';
       let (pid', w1) = (if truthy pid then (pid, w)
                         else (let (s, w') = generateId w in (JStr s, w')));
       pname \<leftarrow> get p ''name'';
       created \<leftarrow> get p ''createdAt'';
       let (created', w2) = (if truthy created then (created, w1)
                             else (let (s, w') = now_iso w1 in (JStr s, w')));
       funds \<leftarrow> get p ''funds'';
       favorites \<leftarrow> get p ''favorites'';
       groups \<leftarrow> get p ''groups'';
       holdings \<leftarrow> get p ''holdings'';
       pending \<leftarrow> get p ''pendingTrades'';
       Some (portfolio_literal pid' (if truthy pname then pname else JStr name_unnamed) created'
               (array_or_empty funds) (array_or_empty favorites) (array_or_empty groups)
               (holdings_or_empty holdings) (array_or_empty pending), w2)
     }"

fun map_portfolios :: "world \<Rightarrow> jsval list \<Rightarrow> (jsval list \<times> world) option" where
  "map_portfolios w [] = Some ([], w)"
| "map_portfolios w (p # ps) =
     do {
       (q, w1) \<leftarrow> repair_portfolio w p;
       (qs, w2) \<leftarrow> map_portfolios w1 ps;
       Some (q # qs, w2)
     }"

fun elements :: "jsval \<Rightarrow> jsval list" where
  "elements (JArr xs) = xs"
| "elements v = []"

text \<open>\<^verbatim>\<open>validateV2Data\<close> of the module that also holds the migrator and the merger.\<close>

definition validateV2Data :: "world \<Rightarrow> jsval \<Rightarrow> (jsval \<times> world) option" where
  "validateV2Data w data =
     (if \<not> truthy data \<or> \<not> typeof_object data then Some (createEmptyV2Data w)
      else
        (let refresh = refresh_or_default (opt_get data ''refreshMs'');
             ports = opt_get data ''portfolios''
         in if isArray ports \<and> 0 < length (elements ports) then
              do {
                (qs, w') \<leftarrow> map_portfolios w (elements ports);
                Some (document_literal (JNum (Fin 2)) refresh (JArr qs), w')
              }
            else
              (let (q, w') = createPortfolio w (JStr name_default)
               in Some (document_literal (JNum (Fin 2)) refresh (JArr [q]), w'))))"

subsection \<open>The second module\<close>

text \<open>
  \<^verbatim>\<open>app/lib/migration.js\<close> holds its own \<^verbatim>\<open>generateId\<close>, \<^verbatim>\<open>createPortfolio\<close> and
  \<^verbatim>\<open>validateV2Data\<close>; its validator writes the empty document out where the other module
  calls \<^verbatim>\<open>createEmptyV2Data\<close>.
\<close>

definition generateId_lib :: "world \<Rightarrow> string \<times> world" where
  "generateId_lib w =
     (case crypto_uuids w of
        Some uuid \<Rightarrow> (uuid (uuid_calls w), w\<lparr>uuid_calls := Suc (uuid_calls w)\<rparr>)
      | None \<Rightarrow>
          (let (s, n) = replace_xy (randoms w) (random_calls w)
                          ''xxxxxxxx-xxxx-4xxx-yxxx-xxxxxxxxxxxx''
           in (s, w\<lparr>random_calls := n\<rparr>)))"

definition createPortfolio_lib :: "world \<Rightarrow> jsval \<Rightarrow> jsval \<times> world" where
  "createPortfolio_lib w name =
     (let (pid, w1) = generateId_lib w;
          (now, w2) = now_iso w1
      in (portfolio_literal (JStr pid) (if truthy name then name else JStr name_new) (JStr now)
            (JArr []) (JArr []) (JArr []) (JObj fmempty) (JArr []), w2))"

definition repair_portfolio_lib :: "world \<Rightarrow> jsval \<Rightarrow> (jsval \<times> world) option" where
  "repair_portfolio_lib w p =
     do {
       pid \<leftarrow> get p ''id'';
       let (pid', w1) = (if truthy pid then (pid, w)
                         else (let (s, w') = generateId_lib w in (JStr s, w')));
       pname \<leftarrow> get p ''name'';
       created \<leftarrow> get p ''createdAt'';
       let (created', w2) = (if truthy created then (created, w1)
                             else (let (s, w') = now_iso w1 in (JStr s, w')));
       funds \<leftarrow> get p ''funds'';
       favorites \<leftarrow> get p ''favorites'';
       groups \<leftarrow> get p ''groups'';
       holdings \<leftarrow> get p ''holdings'';
       pending \<leftarrow> get p ''pendingTrades'';
       Some (portfolio_literal pid' (if truthy pname then pname else JStr name_unnamed) created'
               (array_or_empty funds) (array_or_empty favorites) (array_or_empty groups)
               (holdings_or_empty holdings) (array_or_empty pending), w2)
     }"

fun map_portfolios_lib :: "world \<Rightarrow> jsval list \<Rightarrow> (jsval list \<times> world) option" where
  "map_portfolios_lib w [] = Some ([], w)"
| "map_portfolios_lib w (p # ps) =
     do {
       (q, w1) \<leftarrow> repair_portfolio_lib w p;
       (qs, w2) \<leftarrow> map_portfolios_lib w1 ps;
       Some (q # qs, w2)
     }"

definition validateV2Data_lib :: "world \<Rightarrow> jsval \<Rightarrow> (jsval \<times> world) option" where
  "validateV2Data_lib w data =
     (if \<not> truthy data \<or> \<not> typeof_object data then
        (let (q, w') = createPortfolio_lib w (JStr name_default)
         in Some (document_literal (JNum (Fin 2)) (JNum (Fin 30000)) (JArr [q]), w'))
      else
        (let refresh = refresh_or_default (opt_get data ''refreshMs'');
             ports = opt_get data ''portfolios''
         in if isArray ports \<and> 0 < length (elements ports) then
              do {
                (qs, w') \<leftarrow> map_portfolios_lib w (elements ports);
                Some (document_literal (JNum (Fin 2)) refresh (JArr qs), w')
              }
            else
              (let (q, w') = createPortfolio_lib w (JStr name_default)
               in Some (document_literal (JNum (Fin 2)) refresh (JArr [q]), w'))))"

section \<open>The merger\<close>

text \<open>\<^verbatim>\<open>funds.map(f => f.code)\<close>: the read throws on a null or undefined entry.\<close>

fun map_code :: "jsval list \<Rightarrow> jsval list option" where
  "map_code [] = Some []"
| "map_code (f # fs) = do { c \<leftarrow> get f ''code''; cs \<leftarrow> map_code fs; Some (c # cs) }"

text \<open>\<^verbatim>\<open>f && f.code && !existingCodes.has(f.code)\<close>.\<close>

definition is_new_fund :: "jsval list \<Rightarrow> jsval \<Rightarrow> bool" where
  "is_new_fund existingCodes f =
     (truthy f \<and> truthy (opt_get f ''code'') \<and> \<not> set_has existingCodes (opt_get f ''code''))"

text \<open>
  \<^verbatim>\<open>mergedGroups.findIndex(g => g.id === incomingGroup.id)\<close>: the index of the first
  group of that id, \<open>Some None\<close> for the source's -1; the groups after the first match
  are not read.
\<close>

fun findIndex_id :: "jsval list \<Rightarrow> jsval \<Rightarrow> nat option option" where
  "findIndex_id [] incomingGroup = Some None"
| "findIndex_id (g # gs) incomingGroup =
     do {
       gid \<leftarrow> get g ''id'';
       iid \<leftarrow> get incomingGroup ''id'';
       if strict_eq gid iid then Some (Some 0)
       else do { r \<leftarrow> findIndex_id gs incomingGroup; Some (map_option Suc r) }
     }"

text \<open>The body of the loop over the legacy groups.\<close>

definition merge_group :: "jsval list \<Rightarrow> jsval list \<Rightarrow> jsval \<Rightarrow> jsval list option" where
  "merge_group allCodes mergedGroups incomingGroup =
     do {
       existingIdx \<leftarrow> findIndex_id mergedGroups incomingGroup;
       case existingIdx of
         Some i \<Rightarrow>
           do {
             own \<leftarrow> get (mergedGroups ! i) ''codes'';
             owns \<leftarrow> array_spread own;
             inc \<leftarrow> get incomingGroup ''codes'';
             incs \<leftarrow> array_spread (or_array inc);
             Some (mergedGroups[i :=
               JObj (fmupd ''codes'' (JArr (filter (set_has allCodes) (new_Set (owns @ incs))))
                      (object_spread (mergedGroups ! i)))])
           }
       | None \<Rightarrow>
           do {
             inc \<leftarrow> get incomingGroup ''codes'';
             incs \<leftarrow> array_method (or_array inc);
             Some (mergedGroups @
               [JObj (fmupd ''codes'' (JArr (filter (set_has allCodes) incs))
                       (object_spread incomingGroup))])
           }
     }"

fun merge_groups :: "jsval list \<Rightarrow> jsval list \<Rightarrow> jsval list \<Rightarrow> jsval list option" where
  "merge_groups allCodes mergedGroups [] = Some mergedGroups"
| "merge_groups allCodes mergedGroups (g # gs) =
     do { m \<leftarrow> merge_group allCodes mergedGroups g; merge_groups allCodes m gs }"

text \<open>The key of a pending trade.\<close>

definition keyOf :: "platform \<Rightarrow> jsval \<Rightarrow> string" where
  "keyOf pf trade =
     (if truthy (opt_get trade ''id'') then ''id:'' @ to_string pf (opt_get trade ''id'')
      else ''k:'' @ to_string pf (or_string (opt_get trade ''fundCode''))
           @ '':'' @ to_string pf (or_string (opt_get trade ''type''))
           @ '':'' @ to_string pf (or_string (opt_get trade ''date''))
           @ '':'' @ to_string pf (or_string (opt_get trade ''share''))
           @ '':'' @ to_string pf (or_string (opt_get trade ''amount''))
           @ '':'' @ (if truthy (opt_get trade ''isAfter3pm'') then ''1'' else ''0''))"

text \<open>
  A \<^verbatim>\<open>Map\<close> is the list of its entries in insertion order: \<^verbatim>\<open>set\<close> on a key that is there
  changes the value where the entry stands, on a new key it adds an entry at the end.
\<close>

fun map_set :: "'k \<Rightarrow> 'v \<Rightarrow> ('k \<times> 'v) list \<Rightarrow> ('k \<times> 'v) list" where
  "map_set k v [] = [(k, v)]"
| "map_set k v ((k', v') # m) = (if k' = k then (k, v) # m else (k', v') # map_set k v m)"

definition add_trade ::
  "platform \<Rightarrow> jsval list \<Rightarrow> (string \<times> jsval) list \<Rightarrow> jsval \<Rightarrow> (string \<times> jsval) list" where
  "add_trade pf allCodes pendingMap trade =
     (if truthy trade \<and> set_has allCodes (opt_get trade ''fundCode'')
      then map_set (keyOf pf trade) trade pendingMap else pendingMap)"

definition mergeOldDataToPortfolio :: "platform \<Rightarrow> jsval \<Rightarrow> jsval \<Rightarrow> jsval option" where
  "mergeOldDataToPortfolio pf portfolio oldData =
     (if \<not> truthy portfolio \<or> \<not> truthy oldData then Some portfolio
      else
        do {
          pfunds \<leftarrow> array_method (or_array (opt_get portfolio ''funds''));
          pcodes \<leftarrow> map_code pfunds;
          let existingCodes = new_Set pcodes;
          ofunds \<leftarrow> array_method (or_array (opt_get oldData ''funds''));
          let newFunds = filter (is_new_fund existingCodes) ofunds;
          let mergedFunds = pfunds @ newFunds;
          mcodes \<leftarrow> map_code mergedFunds;
          let allCodes = new_Set mcodes;
          pfavs \<leftarrow> array_spread (or_array (opt_get portfolio ''favorites''));
          ofavs \<leftarrow> array_spread (or_array (opt_get oldData ''favorites''));
          let mergedFavorites = filter (set_has allCodes) (new_Set (pfavs @ ofavs));
          pgroups \<leftarrow> array_spread (or_array (opt_get portfolio ''groups''));
          ogroups \<leftarrow> array_method (or_array (opt_get oldData ''groups''));
          mergedGroups \<leftarrow> merge_groups allCodes pgroups ogroups;
          let mergedHoldings =
            fmfilter (\<lambda>code. set_has allCodes (JStr code))
              (object_spread (or_object (opt_get portfolio ''holdings''))
                 ++\<^sub>f object_spread (or_object (opt_get oldData ''holdings'')));
          ptrades \<leftarrow> array_method (or_array (opt_get portfolio ''pendingTrades''));
          otrades \<leftarrow> array_method (or_array (opt_get oldData ''pendingTrades''));
          let pendingMap =
            foldl (add_trade pf allCodes) (foldl (add_trade pf allCodes) [] ptrades) otrades;
          let mergedPending = map snd pendingMap;
          Some (JObj (object_spread portfolio ++\<^sub>f fmap_of_list
            [(''funds'', JArr mergedFunds), (''favorites'', JArr mergedFavorites),
             (''groups'', JArr mergedGroups), (''holdings'', JObj mergedHoldings),
             (''pendingTrades'', JArr mergedPending)]))
        })"

section \<open>The notions of the statements\<close>

text \<open>A plain object, as opposed to an array, null or a primitive value.\<close>

fun is_object :: "jsval \<Rightarrow> bool" where
  "is_object (JObj m) = True"
| "is_object v = False"

text \<open>
  The default portfolio that \<^verbatim>\<open>createEmptyV2Data\<close> and \<^verbatim>\<open>createPortfolio\<close> build in the
  world \<open>w\<close>, and the world they leave.
\<close>

definition default_portfolio :: "world \<Rightarrow> jsval" where
  "default_portfolio w =
     portfolio_literal (JStr (fst (generateId w))) (JStr name_default)
       (JStr (fst (now_iso (snd (generateId w)))))
       (JArr []) (JArr []) (JArr []) (JObj fmempty) (JArr [])"

definition after_default_portfolio :: "world \<Rightarrow> world" where
  "after_default_portfolio w = snd (now_iso (snd (generateId w)))"

text \<open>
  The identifiers of \<^verbatim>\<open>crypto.randomUUID\<close> and the times of the clock are not empty strings.
\<close>

definition sources_nonempty :: "world \<Rightarrow> bool" where
  "sources_nonempty w =
     ((case crypto_uuids w of Some uuid \<Rightarrow> \<forall>i. uuid i \<noteq> [] | None \<Rightarrow> True)
      \<and> (\<forall>i. clock w i \<noteq> []))"

text \<open>The shape of a portfolio that the validator has been through.\<close>

definition repaired :: "jsval \<Rightarrow> bool" where
  "repaired q =
     (\<exists>pid pname created funds favorites groups holdings pending.
        q = portfolio_literal pid pname created funds favorites groups holdings pending
        \<and> truthy pid \<and> truthy pname \<and> truthy created \<and> isArray funds \<and> isArray favorites
        \<and> isArray groups \<and> is_object holdings \<and> isArray pending)"

text \<open>Validation applied to its own result, in the world the first application leaves.\<close>

definition validate_twice :: "world \<Rightarrow> jsval \<Rightarrow> (jsval \<times> world) option" where
  "validate_twice w x = do { (d, w') \<leftarrow> validateV2Data w x; validateV2Data w' d }"

text \<open>The names of the fields of a document, of a portfolio, and of the merged collections.\<close>

definition document_fields :: "string fset" where
  "document_fields = {|''version'', ''refreshMs'', ''portfolios''|}"

definition portfolio_fields :: "string fset" where
  "portfolio_fields =
     {|''id'', ''name'', ''createdAt'', ''funds'', ''favorites'', ''groups'', ''holdings'',
       ''pendingTrades''|}"

definition merged_fields :: "string fset" where
  "merged_fields = {|''funds'', ''favorites'', ''groups'', ''holdings'', ''pendingTrades''|}"

text \<open>The fields of a value, and whether it has exactly the given ones.\<close>

definition has_exactly :: "string fset \<Rightarrow> jsval \<Rightarrow> bool" where
  "has_exactly ks v = (case v of JObj m \<Rightarrow> fmdom m = ks | _ \<Rightarrow> False)"

subsection \<open>The referential invariant of a portfolio\<close>

definition code_of :: "jsval \<Rightarrow> jsval" where
  "code_of f = opt_get f ''code''"

definition fund_codes :: "jsval \<Rightarrow> jsval list" where
  "fund_codes r = map code_of (elements (opt_get r ''funds''))"

text \<open>No two entries of a list of funds share a code.\<close>

fun no_shared_code :: "jsval list \<Rightarrow> bool" where
  "no_shared_code [] = True"
| "no_shared_code (f # fs) = (\<not> set_has (map code_of fs) (code_of f) \<and> no_shared_code fs)"

definition funds_distinct :: "jsval \<Rightarrow> bool" where
  "funds_distinct r = no_shared_code (elements (opt_get r ''funds''))"

text \<open>The same of the funds of the legacy data that have a truthy code.\<close>

definition coded_funds_distinct :: "jsval \<Rightarrow> bool" where
  "coded_funds_distinct old =
     no_shared_code
       (filter (\<lambda>f. truthy f \<and> truthy (code_of f)) (elements (opt_get old ''funds'')))"

definition favorites_closed :: "jsval \<Rightarrow> bool" where
  "favorites_closed r =
     list_all (\<lambda>c. c \<in> set (fund_codes r)) (elements (opt_get r ''favorites''))"

definition group_closed :: "jsval \<Rightarrow> jsval \<Rightarrow> bool" where
  "group_closed r g = list_all (\<lambda>c. c \<in> set (fund_codes r)) (elements (opt_get g ''codes''))"

definition groups_closed :: "jsval \<Rightarrow> bool" where
  "groups_closed r = list_all (group_closed r) (elements (opt_get r ''groups''))"

definition holdings_closed :: "jsval \<Rightarrow> bool" where
  "holdings_closed r =
     fBall (fmdom (object_spread (opt_get r ''holdings''))) (\<lambda>k. JStr k \<in> set (fund_codes r))"

definition pending_closed :: "jsval \<Rightarrow> bool" where
  "pending_closed r =
     list_all (\<lambda>t. opt_get t ''fundCode'' \<in> set (fund_codes r))
       (elements (opt_get r ''pendingTrades''))"

text \<open>The invariant as the specification states it of every merged portfolio.\<close>

definition merge_invariant :: "jsval \<Rightarrow> bool" where
  "merge_invariant r =
     (funds_distinct r \<and> favorites_closed r \<and> groups_closed r \<and> holdings_closed r
      \<and> pending_closed r)"

text \<open>
  A group of the result that is the group of the portfolio at the same place, as it was.
\<close>

definition carried_over :: "jsval \<Rightarrow> jsval \<Rightarrow> nat \<Rightarrow> bool" where
  "carried_over p r i =
     (i < length (elements (opt_get p ''groups''))
      \<and> elements (opt_get r ''groups'') ! i = elements (opt_get p ''groups'') ! i)"

definition groups_closed_or_carried :: "jsval \<Rightarrow> jsval \<Rightarrow> bool" where
  "groups_closed_or_carried p r =
     list_all (\<lambda>i. group_closed r (elements (opt_get r ''groups'') ! i) \<or> carried_over p r i)
       [0..<length (elements (opt_get r ''groups''))]"

subsection \<open>The key of a pending trade, as the specification words it\<close>

text \<open>
  The identifier of the trade when it is truthy, and the six fields otherwise, a missing
  field being the empty string.
\<close>

datatype trade_key =
    ById jsval
  | ByFields jsval jsval jsval jsval jsval jsval

definition missing_as_empty :: "jsval \<Rightarrow> jsval" where
  "missing_as_empty v = (if v = JUndefined then JStr [] else v)"

definition trade_key_of :: "jsval \<Rightarrow> trade_key" where
  "trade_key_of t =
     (if truthy (opt_get t ''id'') then ById (opt_get t ''id'')
      else ByFields (missing_as_empty (opt_get t ''fundCode''))
             (missing_as_empty (opt_get t ''type'')) (missing_as_empty (opt_get t ''date''))
             (missing_as_empty (opt_get t ''share'')) (missing_as_empty (opt_get t ''amount''))
             (missing_as_empty (opt_get t ''isAfter3pm'')))"

text \<open>The string under which the map of the merge files a key.\<close>

fun render_key :: "platform \<Rightarrow> trade_key \<Rightarrow> string" where
  "render_key pf (ById i) = ''id:'' @ to_string pf i"
| "render_key pf (ByFields code ty date share amount after) =
     ''k:'' @ to_string pf (or_string code) @ '':'' @ to_string pf (or_string ty)
     @ '':'' @ to_string pf (or_string date) @ '':'' @ to_string pf (or_string share)
     @ '':'' @ to_string pf (or_string amount) @ '':'' @ (if truthy after then ''1'' else ''0'')"

text \<open>
  The trades of a list that the merge retains: the truthy ones whose fund is a fund of the
  merged portfolio.
\<close>

definition retained :: "jsval \<Rightarrow> jsval list \<Rightarrow> jsval list" where
  "retained r ts =
     filter (\<lambda>t. truthy t \<and> set_has (fund_codes r) (opt_get t ''fundCode'')) ts"

text \<open>The keys of a list in the order of their first occurrence.\<close>

fun first_keys :: "string list \<Rightarrow> string list" where
  "first_keys [] = []"
| "first_keys (k # ks) = k # removeAll k (first_keys ks)"

text \<open>The last trade of a list that has the key \<open>k\<close>.\<close>

definition last_of_key :: "platform \<Rightarrow> string \<Rightarrow> jsval list \<Rightarrow> jsval" where
  "last_of_key pf k ts = last (filter (\<lambda>t. keyOf pf t = k) ts)"

text \<open>
  The trades of the portfolio and of the legacy data that the merge retains, the portfolio's
  first.
\<close>

definition retained_trades :: "jsval \<Rightarrow> jsval \<Rightarrow> jsval \<Rightarrow> jsval list" where
  "retained_trades p old r =
     retained r (elements (opt_get p ''pendingTrades''))
     @ retained r (elements (opt_get old ''pendingTrades''))"

text \<open>\<^verbatim>\<open>pendingMap.set(keyOf(trade), trade)\<close>.\<close>

definition set_trade ::
  "platform \<Rightarrow> (string \<times> jsval) list \<Rightarrow> jsval \<Rightarrow> (string \<times> jsval) list" where
  "set_trade pf m t = map_set (keyOf pf t) t m"

text \<open>
  The pending trades as the specification has them: one entry for each key of the
  specification, the last trade of that key, in the order in which the keys first occur.
\<close>

definition pending_by_key :: "jsval list \<Rightarrow> jsval list" where
  "pending_by_key ts = map snd (foldl (\<lambda>m t. map_set (trade_key_of t) t m) [] ts)"

subsection \<open>Example inputs\<close>

definition example_platform :: platform where
  "example_platform = \<lparr>number_to_string = (\<lambda>n. ''7''), string_to_number = (\<lambda>s. NaN)\<rparr>"

definition example_world :: world where
  "example_world =
     \<lparr>crypto_uuids = None, randoms = (\<lambda>n. n), clock = (\<lambda>n. ''2024-01-01T00:00:00.000Z''),
      uuid_calls = 0, random_calls = 0, clock_calls = 0\<rparr>"

definition fund :: "string \<Rightarrow> jsval" where
  "fund c = JObj (fmap_of_list [(''code'', JStr c)])"

definition example_portfolio :: jsval where
  "example_portfolio =
     JObj (fmap_of_list
       [(''id'', JStr ''p1''), (''name'', JStr ''main''), (''note'', JStr ''mine''),
        (''funds'', JArr [fund ''A''])])"

definition example_legacy :: jsval where
  "example_legacy =
     JObj (fmap_of_list [(''funds'', JArr [fund ''A'', fund ''B'']),
                         (''favorites'', JArr [JStr ''B'', JStr ''C''])])"

definition example_merged :: jsval where
  "example_merged =
     JObj (fmap_of_list
       [(''id'', JStr ''p1''), (''name'', JStr ''main''), (''note'', JStr ''mine''),
        (''funds'', JArr [fund ''A'', fund ''B'']), (''favorites'', JArr [JStr ''B'']),
        (''groups'', JArr []), (''holdings'', JObj fmempty), (''pendingTrades'', JArr [])])"

definition example_document :: jsval where
  "example_document =
     JObj (fmap_of_list
       [(''theme'', JStr ''dark''),
        (''portfolios'',
         JArr [JObj (fmap_of_list [(''id'', JStr ''p1''), (''note'', JStr ''mine'')]),
               JStr ''junk''])])"

definition example_validated :: jsval where
  "example_validated =
     document_literal (JNum (Fin 2)) (JNum (Fin 30000))
       (JArr [portfolio_literal (JStr ''p1'') (JStr name_unnamed)
                (JStr ''2024-01-01T00:00:00.000Z'') (JArr []) (JArr []) (JArr [])
                (JObj fmempty) (JArr []),
              portfolio_literal (JStr ''01234567-89ab-4cde-b012-3456789abcde'')
                (JStr name_unnamed)
                (JStr ''2024-01-01T00:00:00.000Z'') (JArr []) (JArr []) (JArr [])
                (JObj fmempty) (JArr [])])"

definition trade :: "(string \<times> string) list \<Rightarrow> jsval" where
  "trade kvs = JObj (fmap_of_list (map (\<lambda>(k, v). (k, JStr v)) kvs))"

definition example_trading_portfolio :: jsval where
  "example_trading_portfolio =
     JObj (fmap_of_list
       [(''funds'', JArr [fund ''A'']),
        (''pendingTrades'', JArr
           [trade [(''id'', ''t1''), (''fundCode'', ''A''), (''share'', ''1'')],
            trade [(''fundCode'', ''A''), (''type'', ''buy'')],
            trade [(''id'', ''t2''), (''fundCode'', ''Z'')]])])"

definition example_trading_legacy :: jsval where
  "example_trading_legacy =
     JObj (fmap_of_list
       [(''pendingTrades'', JArr
           [trade [(''id'', ''t9''), (''fundCode'', ''A'')],
            trade [(''fundCode'', ''A''), (''type'', ''buy''), (''date'', [])],
            trade [(''id'', ''t1''), (''fundCode'', ''A''), (''share'', ''2'')]])])"

definition example_trading_merged :: jsval where
  "example_trading_merged =
     JObj (fmap_of_list
       [(''funds'', JArr [fund ''A'']), (''favorites'', JArr []), (''groups'', JArr []),
        (''holdings'', JObj fmempty),
        (''pendingTrades'', JArr
           [trade [(''id'', ''t1''), (''fundCode'', ''A''), (''share'', ''2'')],
            trade [(''fundCode'', ''A''), (''type'', ''buy''), (''date'', [])],
            trade [(''id'', ''t9''), (''fundCode'', ''A'')]])])"

definition example_duplicates :: jsval where
  "example_duplicates =
     JObj (fmap_of_list
       [(''funds'', JArr [fund ''A'', fund ''A'']),
        (''groups'', JArr [JObj (fmap_of_list [(''id'', JStr ''g''),
                                                (''codes'', JArr [JStr ''X''])])])])"

definition example_duplicates_merged :: jsval where
  "example_duplicates_merged =
     JObj (fmap_of_list
       [(''funds'', JArr [fund ''A'', fund ''A'']), (''favorites'', JArr []),
        (''groups'', JArr [JObj (fmap_of_list [(''id'', JStr ''g''),
                                                (''codes'', JArr [JStr ''X''])])]),
        (''holdings'', JObj fmempty), (''pendingTrades'', JArr [])])"

definition example_morning_trade :: jsval where
  "example_morning_trade =
     trade [(''fundCode'', ''A''), (''type'', ''buy''), (''date'', ''09:30'')]"

definition example_colliding_trade :: jsval where
  "example_colliding_trade =
     trade [(''fundCode'', ''A''), (''type'', ''buy:09''), (''date'', ''30'')]"

definition example_colliding_portfolio :: jsval where
  "example_colliding_portfolio =
     JObj (fmap_of_list
       [(''funds'', JArr [fund ''A'']), (''pendingTrades'', JArr [example_morning_trade])])"

definition example_colliding_legacy :: jsval where
  "example_colliding_legacy =
     JObj (fmap_of_list [(''pendingTrades'', JArr [example_colliding_trade])])"

definition example_colliding_merged :: jsval where
  "example_colliding_merged =
     JObj (fmap_of_list
       [(''funds'', JArr [fund ''A'']), (''favorites'', JArr []), (''groups'', JArr []),
        (''holdings'', JObj fmempty), (''pendingTrades'', JArr [example_colliding_trade])])"

section \<open>Properties\<close>

subsection \<open>The two modules\<close>

lemma generateId_lib_eq: "generateId_lib = generateId"
  by (rule ext) (simp add: generateId_lib_def generateId_def)

lemma createPortfolio_lib_eq: "createPortfolio_lib = createPortfolio"
  by (rule ext)+ (simp add: createPortfolio_lib_def createPortfolio_def generateId_lib_eq)

lemma repair_portfolio_lib_eq: "repair_portfolio_lib = repair_portfolio"
  unfolding repair_portfolio_lib_def repair_portfolio_def generateId_lib_eq by (rule refl)

lemma map_portfolios_lib_eq: "map_portfolios_lib w ps = map_portfolios w ps"
  by (induction ps arbitrary: w) (simp_all add: repair_portfolio_lib_eq)

lemma name_default_nonempty [simp]: "name_default \<noteq> []"
  by (simp add: name_default_def)

lemma validateV2Data_lib_eq: "validateV2Data_lib w data = validateV2Data w data"
  by (simp add: validateV2Data_lib_def validateV2Data_def createPortfolio_lib_eq
      map_portfolios_lib_eq createEmptyV2Data_def createPortfolio_def Let_def split: prod.splits)

text \<open>
  Claim C9. The three functions that both modules hold, \<^verbatim>\<open>generateId\<close>, \<^verbatim>\<open>createPortfolio\<close>
  and \<^verbatim>\<open>validateV2Data\<close>, return the same result and leave the same world on every input,
  from the same world (the same random values and times); this covers the input that is not
  an object, where one module writes out the empty document that the other takes from
  \<^verbatim>\<open>createEmptyV2Data\<close>.
\<close>

theorem duplicated_functions_agree:
  "generateId_lib w = generateId w
   \<and> createPortfolio_lib w name = createPortfolio w name
   \<and> validateV2Data_lib w data = validateV2Data w data"
  by (simp add: generateId_lib_eq createPortfolio_lib_eq validateV2Data_lib_eq)

lemma validate_lib_null:
  "validateV2Data_lib w JNull =
     Some (document_literal (JNum (Fin 2)) (JNum (Fin 30000))
             (JArr [fst (createPortfolio_lib w (JStr name_default))]),
           snd (createPortfolio_lib w (JStr name_default)))"
  by (simp add: validateV2Data_lib_def split: prod.splits)

theorem duplicated_functions_agree_witness:
  "validateV2Data example_world JNull =
     Some (document_literal (JNum (Fin 2)) (JNum (Fin 30000))
             (JArr [fst (createPortfolio example_world (JStr name_default))]),
           snd (createPortfolio example_world (JStr name_default)))"
proof -
  have "validateV2Data example_world JNull = validateV2Data_lib example_world JNull"
    and "createPortfolio_lib example_world (JStr name_default)
           = createPortfolio example_world (JStr name_default)"
    using duplicated_functions_agree [of example_world "JStr name_default" JNull] by simp_all
  then show ?thesis
    using validate_lib_null [of example_world] by simp
qed

subsection \<open>The default document\<close>

lemma createEmptyV2Data_eq:
  "createEmptyV2Data w =
     (document_literal (JNum (Fin 2)) (JNum (Fin 30000)) (JArr [default_portfolio w]),
      after_default_portfolio w)"
  by (simp add: createEmptyV2Data_def default_portfolio_def after_default_portfolio_def
      split: prod.splits)

lemma createPortfolio_default_eq:
  "createPortfolio w (JStr name_default) = (default_portfolio w, after_default_portfolio w)"
  by (simp add: createPortfolio_def default_portfolio_def after_default_portfolio_def
      split: prod.splits)





subsection \<open>The migrator\<close>






subsection \<open>The detector\<close>




subsection \<open>Inputs on which the operations throw\<close>

text \<open>
  Claim C2. The operations do not all return on every input. \<^verbatim>\<open>validateV2Data\<close> throws
  on a portfolios array that holds null, where the claim has it return a document;
  \<^verbatim>\<open>mergeOldDataToPortfolio\<close> throws on a null entry of the portfolio's funds, on a null
  legacy group, and on a group of the portfolio without \<^verbatim>\<open>codes\<close> that a legacy group
  matches by id.
\<close>

theorem operations_throw:
  "validateV2Data w (JObj (fmap_of_list [(''portfolios'', JArr [JNull])])) = None
   \<and> mergeOldDataToPortfolio pf (JObj (fmap_of_list [(''funds'', JArr [JNull])]))
         (JObj fmempty) = None
   \<and> mergeOldDataToPortfolio pf (JObj fmempty)
         (JObj (fmap_of_list [(''groups'', JArr [JNull])])) = None
   \<and> mergeOldDataToPortfolio pf
         (JObj (fmap_of_list [(''groups'', JArr [JObj (fmap_of_list [(''id'', JStr ''g'')])])]))
         (JObj (fmap_of_list [(''groups'', JArr [JObj (fmap_of_list [(''id'', JStr ''g'')])])]))
       = None"
  by (simp add: validateV2Data_def repair_portfolio_def mergeOldDataToPortfolio_def
      or_array_def new_Set_def merge_group_def strict_eq_def)

theorem operations_throw_witness:
  "validateV2Data example_world (JObj (fmap_of_list [(''portfolios'', JArr [JNull])])) = None
   \<and> mergeOldDataToPortfolio example_platform (JObj (fmap_of_list [(''funds'', JArr [JNull])]))
         (JObj fmempty) = None"
  using operations_throw [of example_world example_platform] by simp

subsection \<open>The fields the merge keeps\<close>

lemma merge_SomeE:
  assumes "truthy p" "truthy old" "mergeOldDataToPortfolio pf p old = Some r"
  obtains pfunds pcodes ofunds mcodes pfavs ofavs pgroups ogroups mergedGroups ptrades otrades
  where "array_method (or_array (opt_get p ''funds'')) = Some pfunds"
    and "map_code pfunds = Some pcodes"
    and "array_method (or_array (opt_get old ''funds'')) = Some ofunds"
    and "map_code (pfunds @ filter (is_new_fund (new_Set pcodes)) ofunds) = Some mcodes"
    and "array_spread (or_array (opt_get p ''favorites'')) = Some pfavs"
    and "array_spread (or_array (opt_get old ''favorites'')) = Some ofavs"
    and "array_spread (or_array (opt_get p ''groups'')) = Some pgroups"
    and "array_method (or_array (opt_get old ''groups'')) = Some ogroups"
    and "merge_groups (new_Set mcodes) pgroups ogroups = Some mergedGroups"
    and "array_method (or_array (opt_get p ''pendingTrades'')) = Some ptrades"
    and "array_method (or_array (opt_get old ''pendingTrades'')) = Some otrades"
    and "r = JObj (object_spread p ++\<^sub>f fmap_of_list
            [(''funds'', JArr (pfunds @ filter (is_new_fund (new_Set pcodes)) ofunds)),
             (''favorites'', JArr (filter (set_has (new_Set mcodes)) (new_Set (pfavs @ ofavs)))),
             (''groups'', JArr mergedGroups),
             (''holdings'', JObj (fmfilter (\<lambda>code. set_has (new_Set mcodes) (JStr code))
                (object_spread (or_object (opt_get p ''holdings''))
                   ++\<^sub>f object_spread (or_object (opt_get old ''holdings''))))),
             (''pendingTrades'', JArr (map snd
                (foldl (add_trade pf (new_Set mcodes))
                   (foldl (add_trade pf (new_Set mcodes)) [] ptrades) otrades)))])"
  using assms unfolding mergeOldDataToPortfolio_def
  by (auto simp add: Let_def split: Option.bind_splits)

lemma merge_example:
  "mergeOldDataToPortfolio example_platform example_portfolio example_legacy =
     Some example_merged"
  by code_simp

lemma merge_result_fields:
  assumes "truthy old" "mergeOldDataToPortfolio pf (JObj m) old = Some r"
  shows "is_object r"
    and "fmdom (object_spread r) = fmdom m |\<union>| merged_fields"
    and "k |\<notin>| merged_fields \<Longrightarrow> fmlookup (object_spread r) k = fmlookup m k"
proof -
  have "truthy (JObj m)" by simp
  from this assms(1) assms(2) show "is_object r"
    by (rule merge_SomeE) simp
  from \<open>truthy (JObj m)\<close> assms(1) assms(2)
  show "fmdom (object_spread r) = fmdom m |\<union>| merged_fields"
    by (rule merge_SomeE) (auto simp add: merged_fields_def)
  from \<open>truthy (JObj m)\<close> assms(1) assms(2)
  show "k |\<notin>| merged_fields \<Longrightarrow> fmlookup (object_spread r) k = fmlookup m k"
    by (rule merge_SomeE) (auto simp add: merged_fields_def)
qed

text \<open>
  Claim C8. \<^verbatim>\<open>mergeOldDataToPortfolio\<close> returns its first argument as it is when either
  argument is falsy. Otherwise the portfolio it returns is an object with the fields of the
  given portfolio and the five merged collections, and every field other than these five
  (\<^verbatim>\<open>id\<close>, \<^verbatim>\<open>name\<close>, \<^verbatim>\<open>createdAt\<close> and any further one) has the value it has in the given
  portfolio.
\<close>

theorem merge_frame:
  "(\<not> truthy p \<or> \<not> truthy old \<longrightarrow> mergeOldDataToPortfolio pf p old = Some p)
   \<and> (truthy old \<and> mergeOldDataToPortfolio pf (JObj m) old = Some r \<longrightarrow>
        is_object r
        \<and> fmdom (object_spread r) = fmdom m |\<union>| merged_fields
        \<and> (\<forall>k. k |\<notin>| merged_fields \<longrightarrow> fmlookup (object_spread r) k = fmlookup m k))"
  using merge_result_fields [of old pf m r]
  by (auto simp add: mergeOldDataToPortfolio_def)

theorem merge_frame_witness:
  "mergeOldDataToPortfolio example_platform JNull example_legacy = Some JNull
   \<and> mergeOldDataToPortfolio example_platform example_portfolio example_legacy
       = Some example_merged
   \<and> fmlookup (object_spread example_merged) ''note'' = Some (JStr ''mine'')
   \<and> fmlookup (object_spread example_merged) ''id'' = Some (JStr ''p1'')"
proof -
  have old: "truthy example_legacy"
    by (simp add: example_legacy_def)
  have run: "mergeOldDataToPortfolio example_platform
               (JObj (fmap_of_list
                  [(''id'', JStr ''p1''), (''name'', JStr ''main''), (''note'', JStr ''mine''),
                   (''funds'', JArr [fund ''A''])])) example_legacy = Some example_merged"
    using merge_example by (simp add: example_portfolio_def)
  have "mergeOldDataToPortfolio example_platform JNull example_legacy = Some JNull"
    using merge_frame [of JNull example_legacy example_platform] by simp
  moreover have
    "\<forall>k. k |\<notin>| merged_fields \<longrightarrow>
       fmlookup (object_spread example_merged) k
       = fmlookup (fmap_of_list
           [(''id'', JStr ''p1''), (''name'', JStr ''main''), (''note'', JStr ''mine''),
            (''funds'', JArr [fund ''A''])]) k"
    using merge_frame [of JNull example_legacy example_platform _ example_merged] old run
    by blast
  then have "fmlookup (object_spread example_merged) ''note'' = Some (JStr ''mine'')"
    and "fmlookup (object_spread example_merged) ''id'' = Some (JStr ''p1'')"
    by (simp_all add: merged_fields_def)
  ultimately show ?thesis
    using merge_example by simp
qed

subsection \<open>The fields of a validated document\<close>

lemma portfolio_literal_fields:
  "has_exactly portfolio_fields (portfolio_literal a b c d e f g h)"
  by (auto simp add: has_exactly_def portfolio_literal_def portfolio_fields_def)

lemma document_literal_fields: "has_exactly document_fields (document_literal a b c)"
  by (auto simp add: has_exactly_def document_literal_def document_fields_def)

lemma document_literal_portfolios [simp]:
  "opt_get (document_literal a b c) ''portfolios'' = c"
  by (simp add: document_literal_def)

lemma repair_portfolio_fields:
  "repair_portfolio w p = Some (q, w') \<Longrightarrow> has_exactly portfolio_fields q"
  by (auto simp add: repair_portfolio_def portfolio_literal_fields
      split: Option.bind_splits prod.splits if_splits)

lemma map_portfolios_fields:
  "map_portfolios w ps = Some (qs, w') \<Longrightarrow> list_all (has_exactly portfolio_fields) qs"
proof (induction ps arbitrary: w qs)
  case Nil
  then show ?case by simp
next
  case (Cons p ps)
  from Cons.prems obtain q w1 qs' where
    "repair_portfolio w p = Some (q, w1)" "map_portfolios w1 ps = Some (qs', w')" "qs = q # qs'"
    by (auto split: Option.bind_splits)
  then show ?case
    using Cons.IH [of w1 qs'] repair_portfolio_fields [of w p q w1] by simp
qed

lemma validate_cases:
  assumes "validateV2Data w x = Some (d, w')"
  obtains (default) v where
      "d = document_literal (JNum (Fin 2)) (refresh_or_default v) (JArr [default_portfolio w])"
      "w' = after_default_portfolio w"
  | (mapped) qs where
      "map_portfolios w (elements (opt_get x ''portfolios'')) = Some (qs, w')"
      "elements (opt_get x ''portfolios'') \<noteq> []"
      "d = document_literal (JNum (Fin 2)) (refresh_or_default (opt_get x ''refreshMs''))
             (JArr qs)"
proof (cases "\<not> truthy x \<or> \<not> typeof_object x")
  case True
  then have "validateV2Data w x = Some (createEmptyV2Data w)"
    by (simp add: validateV2Data_def)
  with assms have "d = document_literal (JNum (Fin 2)) (refresh_or_default JUndefined)
                        (JArr [default_portfolio w])" and "w' = after_default_portfolio w"
    by (simp_all add: createEmptyV2Data_eq refresh_or_default_def)
  then show ?thesis by (rule default)
next
  case False
  show ?thesis
  proof (cases "isArray (opt_get x ''portfolios'') \<and> elements (opt_get x ''portfolios'') \<noteq> []")
    case True
    with False assms obtain qs where
      "map_portfolios w (elements (opt_get x ''portfolios'')) = Some (qs, w')"
      "d = document_literal (JNum (Fin 2)) (refresh_or_default (opt_get x ''refreshMs''))
             (JArr qs)"
      by (auto simp add: validateV2Data_def Let_def split: Option.bind_splits)
    with True show ?thesis by (auto intro: mapped)
  next
    case no: False
    with False assms have
      "d = document_literal (JNum (Fin 2)) (refresh_or_default (opt_get x ''refreshMs''))
             (JArr [default_portfolio w])" and "w' = after_default_portfolio w"
      by (auto simp add: validateV2Data_def Let_def createPortfolio_default_eq)
    then show ?thesis by (rule default)
  qed
qed

lemma validate_fields_aux:
  assumes "validateV2Data w x = Some (d, w')"
  shows "has_exactly document_fields d"
    and "list_all (has_exactly portfolio_fields) (elements (opt_get d ''portfolios''))"
proof -
  from assms show "has_exactly document_fields d"
    by (cases rule: validate_cases) (simp_all add: document_literal_fields)
  from assms show
    "list_all (has_exactly portfolio_fields) (elements (opt_get d ''portfolios''))"
    by (cases rule: validate_cases)
       (simp_all add: default_portfolio_def portfolio_literal_fields map_portfolios_fields)
qed

text \<open>
  Claim C10. Whenever \<^verbatim>\<open>validateV2Data\<close> returns, its document has exactly the fields
  \<^verbatim>\<open>version\<close>, \<^verbatim>\<open>refreshMs\<close> and \<^verbatim>\<open>portfolios\<close>, and each of its portfolios has exactly the
  eight fields of a portfolio: any further field of the input is gone. The portfolio that
  \<^verbatim>\<open>mergeOldDataToPortfolio\<close> returns keeps every field of the portfolio it is given.
\<close>

theorem validate_fields:
  "(validateV2Data w x = Some (d, w') \<longrightarrow>
      has_exactly document_fields d
      \<and> list_all (has_exactly portfolio_fields) (elements (opt_get d ''portfolios'')))
   \<and> (truthy old \<and> mergeOldDataToPortfolio pf (JObj m) old = Some r \<longrightarrow>
        fmdom m |\<subseteq>| fmdom (object_spread r))"
  using validate_fields_aux [of w x d w'] merge_result_fields(2) [of old pf m r]
  by simp

lemma validate_example:
  "map_option fst (validateV2Data example_world example_document) = Some example_validated"
  by code_simp

theorem validate_fields_witness:
  "map_option fst (validateV2Data example_world example_document) = Some example_validated
   \<and> has_exactly document_fields example_validated
   \<and> list_all (has_exactly portfolio_fields) (elements (opt_get example_validated ''portfolios''))
   \<and> \<not> has_exactly document_fields example_document"
proof -
  obtain w' where "validateV2Data example_world example_document = Some (example_validated, w')"
    using validate_example by (cases "validateV2Data example_world example_document") auto
  then have "has_exactly document_fields example_validated
      \<and> list_all (has_exactly portfolio_fields) (elements (opt_get example_validated ''portfolios''))"
    using validate_fields [of example_world example_document example_validated w'] by blast
  moreover have "\<not> has_exactly document_fields example_document"
    by (simp add: has_exactly_def example_document_def document_fields_def fset_eq_iff)
       (rule exI [of _ "''theme''"], simp)
  ultimately show ?thesis
    using validate_example by simp
qed

subsection \<open>Validation is idempotent\<close>

lemma replace_xy_nonempty: "cs \<noteq> [] \<Longrightarrow> fst (replace_xy rs n cs) \<noteq> []"
  by (cases cs) (simp_all add: Let_def split: prod.splits)

lemma generateId_sources:
  assumes "sources_nonempty w" "generateId w = (s, w1)"
  shows "s \<noteq> []" and "sources_nonempty w1"
proof -
  show "s \<noteq> []"
  proof (cases "crypto_uuids w")
    case None
    with assms(2) have "s = fst (replace_xy (randoms w) (random_calls w)
                                   ''xxxxxxxx-xxxx-4xxx-yxxx-xxxxxxxxxxxx'')"
      by (simp add: generateId_def split: prod.splits)
    then show ?thesis using replace_xy_nonempty by simp
  next
    case (Some uuid)
    with assms show ?thesis
      by (auto simp add: generateId_def sources_nonempty_def)
  qed
  from assms show "sources_nonempty w1"
    by (auto simp add: generateId_def sources_nonempty_def split: option.splits prod.splits)
qed

lemma now_iso_sources:
  assumes "sources_nonempty w" "now_iso w = (s, w1)"
  shows "s \<noteq> []" and "sources_nonempty w1"
  using assms by (auto simp add: now_iso_def sources_nonempty_def)

lemma name_unnamed_nonempty [simp]: "name_unnamed \<noteq> []"
  by (simp add: name_unnamed_def)

lemma isArray_array_or_empty [simp]: "isArray (array_or_empty v)"
  by (simp add: array_or_empty_def)

lemma is_object_holdings_or_empty [simp]: "is_object (holdings_or_empty v)"
  by (cases v) (simp_all add: holdings_or_empty_def)

lemma array_or_empty_id: "isArray v \<Longrightarrow> array_or_empty v = v"
  by (simp add: array_or_empty_def)

lemma holdings_or_empty_id: "is_object v \<Longrightarrow> holdings_or_empty v = v"
  by (cases v) (simp_all add: holdings_or_empty_def)

lemma refresh_or_default_idem [simp]:
  "refresh_or_default (refresh_or_default v) = refresh_or_default v"
  by (cases v) (simp_all add: refresh_or_default_def)

lemma get_portfolio_literal:
  "get (portfolio_literal a b c d e f g h) ''id'' = Some a"
  "get (portfolio_literal a b c d e f g h) ''name'' = Some b"
  "get (portfolio_literal a b c d e f g h) ''createdAt'' = Some c"
  "get (portfolio_literal a b c d e f g h) ''funds'' = Some d"
  "get (portfolio_literal a b c d e f g h) ''favorites'' = Some e"
  "get (portfolio_literal a b c d e f g h) ''groups'' = Some f"
  "get (portfolio_literal a b c d e f g h) ''holdings'' = Some g"
  "get (portfolio_literal a b c d e f g h) ''pendingTrades'' = Some h"
  by (simp_all add: portfolio_literal_def)

lemma repairedI:
  "truthy a \<Longrightarrow> truthy b \<Longrightarrow> truthy c \<Longrightarrow> isArray d \<Longrightarrow> isArray e \<Longrightarrow> isArray f
   \<Longrightarrow> is_object g \<Longrightarrow> isArray h \<Longrightarrow> repaired (portfolio_literal a b c d e f g h)"
  unfolding repaired_def by blast

lemma repair_portfolio_repaired:
  assumes "sources_nonempty w" "repair_portfolio w p = Some (q, w1)"
  shows "repaired q" and "sources_nonempty w1"
proof -
  from assms(2) obtain pid where pid: "get p ''id'' = Some pid"
    by (auto simp add: repair_portfolio_def split: Option.bind_splits)
  obtain pid' wa where a: "(if truthy pid then (pid, w)
                 else (let (s, w') = generateId w in (JStr s, w'))) = (pid', wa)"
    by (cases "(if truthy pid then (pid, w)
                 else (let (s, w') = generateId w in (JStr s, w')))") auto
  from assms(2) pid a obtain pname created where
    reads: "get p ''name'' = Some pname" "get p ''createdAt'' = Some created"
    by (auto simp add: repair_portfolio_def split: Option.bind_splits)
  obtain created' wb where b: "(if truthy created then (created, wa)
                    else (let (s, w') = now_iso wa in (JStr s, w'))) = (created', wb)"
    by (cases "(if truthy created then (created, wa)
                    else (let (s, w') = now_iso wa in (JStr s, w')))") auto
  from assms(2) pid a reads b obtain funds favorites groups holdings pending where
    q: "q = portfolio_literal pid'
              (if truthy pname then pname else JStr name_unnamed) created'
              (array_or_empty funds) (array_or_empty favorites)
              (array_or_empty groups) (holdings_or_empty holdings)
              (array_or_empty pending)" and w1: "w1 = wb"
    by (auto simp add: repair_portfolio_def split: Option.bind_splits)
  from a assms(1) have a': "truthy pid'" "sources_nonempty wa"
    using generateId_sources [of w]
    by (auto split: if_splits prod.splits)
  from b a'(2) have b': "truthy created'" "sources_nonempty wb"
    using now_iso_sources [of wa]
    by (auto split: if_splits prod.splits)
  from q a'(1) b'(1) show "repaired q"
    by (simp add: repairedI)
  from w1 b'(2) show "sources_nonempty w1" by simp
qed

lemma repair_portfolio_id: "repaired q \<Longrightarrow> repair_portfolio w q = Some (q, w)"
  unfolding repaired_def
  by (auto simp add: repair_portfolio_def get_portfolio_literal array_or_empty_id
      holdings_or_empty_id)

lemma map_portfolios_repaired:
  "sources_nonempty w \<Longrightarrow> map_portfolios w ps = Some (qs, w1)
   \<Longrightarrow> list_all repaired qs \<and> length qs = length ps"
proof (induction ps arbitrary: w qs)
  case Nil
  then show ?case by simp
next
  case (Cons p ps)
  from Cons.prems(2) obtain q wa qs' where
    "repair_portfolio w p = Some (q, wa)" "map_portfolios wa ps = Some (qs', w1)" "qs = q # qs'"
    by (auto split: Option.bind_splits)
  then show ?case
    using Cons.IH [of wa qs'] repair_portfolio_repaired [of w p q wa] Cons.prems(1) by simp
qed

lemma map_portfolios_id: "list_all repaired qs \<Longrightarrow> map_portfolios w qs = Some (qs, w)"
  by (induction qs) (simp_all add: repair_portfolio_id)

lemma default_portfolio_repaired:
  assumes "sources_nonempty w"
  shows "repaired (default_portfolio w)"
proof -
  obtain s wa where g: "generateId w = (s, wa)" by (cases "generateId w")
  obtain t wb where n: "now_iso wa = (t, wb)" by (cases "now_iso wa")
  from assms g have "s \<noteq> []" "sources_nonempty wa"
    using generateId_sources [of w s wa] by simp_all
  with n have "t \<noteq> []"
    using now_iso_sources [of wa t wb] by simp
  with \<open>s \<noteq> []\<close> g n show ?thesis
    by (simp add: default_portfolio_def repairedI)
qed

lemma validate_document_literal:
  assumes "qs \<noteq> []" "list_all repaired qs"
  shows "validateV2Data w (document_literal (JNum (Fin 2)) (refresh_or_default v) (JArr qs))
         = Some (document_literal (JNum (Fin 2)) (refresh_or_default v) (JArr qs), w)"
  using assms
  by (simp add: validateV2Data_def document_literal_def map_portfolios_id)

lemma validate_stable:
  assumes "sources_nonempty w" "validateV2Data w x = Some (d, w')"
  shows "validateV2Data w2 d = Some (d, w2)"
  using assms(2)
proof (cases rule: validate_cases)
  case (default v)
  then show ?thesis
    using validate_document_literal [of "[default_portfolio w]" w2 v]
      default_portfolio_repaired [OF assms(1)] by simp
next
  case (mapped qs)
  then have "list_all repaired qs" "qs \<noteq> []"
    using map_portfolios_repaired [OF assms(1), of "elements (opt_get x ''portfolios'')" qs w']
    by auto
  with mapped(3) show ?thesis
    using validate_document_literal [of qs w2 "opt_get x ''refreshMs''"] by simp
qed

text \<open>
  Claim C3. \<^verbatim>\<open>validateV2Data\<close> is idempotent: applied to its own result it returns that
  result again, and takes no identifier and no time in doing so (it leaves every world as it
  finds it); where the first application throws, so does the second. The identifiers and
  times of the platform are taken to be non-empty strings.
\<close>

theorem validate_idempotent:
  assumes "sources_nonempty w"
  shows "validate_twice w x = validateV2Data w x
         \<and> (\<forall>d w' w2. validateV2Data w x = Some (d, w') \<longrightarrow> validateV2Data w2 d = Some (d, w2))"
proof -
  have stable: "validateV2Data w2 d = Some (d, w2)"
    if "validateV2Data w x = Some (d, w')" for d w' w2
    using validate_stable [OF assms that] .
  then have "validate_twice w x = validateV2Data w x"
    by (cases "validateV2Data w x") (auto simp add: validate_twice_def)
  with stable show ?thesis by blast
qed

lemma example_world_sources: "sources_nonempty example_world"
  by (simp add: sources_nonempty_def example_world_def)

theorem validate_idempotent_witness:
  "sources_nonempty example_world
   \<and> validate_twice example_world example_document
       = validateV2Data example_world example_document
   \<and> map_option fst (validateV2Data example_world example_document) = Some example_validated
   \<and> map_option fst (validateV2Data example_world example_validated) = Some example_validated"
proof -
  obtain w' where run: "validateV2Data example_world example_document = Some (example_validated, w')"
    using validate_example by (cases "validateV2Data example_world example_document") auto
  have "validateV2Data example_world example_validated = Some (example_validated, example_world)"
    using validate_idempotent [OF example_world_sources, of example_document] run by blast
  then show ?thesis
    using validate_idempotent [OF example_world_sources, of example_document] validate_example
      example_world_sources by simp
qed

subsection \<open>Sets of codes\<close>

lemma set_has_iff: "set_has s v = (\<exists>x \<in> set s. same_value_zero x v)"
  by (simp add: set_has_def list_ex_iff)

lemma set_has_append [simp]: "set_has (s @ t) v = (set_has s v \<or> set_has t v)"
  by (auto simp add: set_has_iff)

lemma set_has_set_add: "set_has (set_add s x) v = (set_has s v \<or> same_value_zero x v)"
  by (auto simp add: set_add_def set_has_iff same_value_zero_def)

lemma set_has_Nil [simp]: "set_has [] v = False"
  by (simp add: set_has_def)

lemma set_has_Cons [simp]: "set_has (x # xs) v = (same_value_zero x v \<or> set_has xs v)"
  by (simp add: set_has_def)

lemma set_has_foldl: "set_has (foldl set_add s xs) v = (set_has s v \<or> set_has xs v)"
  by (induction xs arbitrary: s) (auto simp add: set_has_set_add)

lemma set_has_new_Set [simp]: "set_has (new_Set xs) v = set_has xs v"
  by (simp add: new_Set_def set_has_foldl)

lemma set_has_member: "set_has s v \<Longrightarrow> v \<in> set s"
  by (auto simp add: set_has_iff same_value_zero_def)

lemma get_opt_get: "get f k = Some c \<Longrightarrow> c = opt_get f k"
  by (cases f) auto

lemma map_code_Some: "map_code fs = Some cs \<Longrightarrow> cs = map code_of fs"
  by (induction fs arbitrary: cs)
     (auto simp add: code_of_def split: Option.bind_splits dest: get_opt_get)

lemma array_method_elements: "array_method (or_array v) = Some xs \<Longrightarrow> xs = elements v"
  by (cases v) (auto simp add: or_array_def split: if_splits)

subsection \<open>The map of pending trades\<close>

lemma first_keys_set [simp]: "set (first_keys ks) = set ks"
  by (induction ks) auto

lemma first_keys_distinct [simp]: "distinct (first_keys ks)"
  by (induction ks) (auto simp add: distinct_removeAll)

lemma first_keys_snoc:
  "first_keys (ks @ [k]) = (if k \<in> set ks then first_keys ks else first_keys ks @ [k])"
  by (induction ks) auto

lemma first_keys_append:
  "first_keys (xs @ ys) = first_keys xs @ filter (\<lambda>k. k \<notin> set xs) (first_keys ys)"
proof (induction xs)
  case Nil
  then show ?case by simp
next
  case (Cons x xs)
  have "removeAll x (filter (\<lambda>k. k \<notin> set xs) zs) = filter (\<lambda>k. k \<notin> set (x # xs)) zs"
    for zs :: "string list"
    by (induction zs) auto
  with Cons show ?case by simp
qed

lemma map_set_present:
  "distinct ks \<Longrightarrow> k \<in> set ks \<Longrightarrow>
   map_set k v (map (\<lambda>j. (j, f j)) ks) = map (\<lambda>j. (j, if j = k then v else f j)) ks"
  by (induction ks) auto

lemma map_set_absent:
  "k \<notin> set (map fst m) \<Longrightarrow> map_set k v m = m @ [(k, v)]"
  by (induction m) auto

lemma last_of_key_snoc:
  "last_of_key pf k (ts @ [t]) = (if keyOf pf t = k then t else last_of_key pf k ts)"
  by (simp add: last_of_key_def)

lemma foldl_set_trade:
  "foldl (set_trade pf) [] ts
   = map (\<lambda>k. (k, last_of_key pf k ts)) (first_keys (map (keyOf pf) ts))"
proof (induction ts rule: rev_induct)
  case Nil
  then show ?case by simp
next
  case (snoc t ts)
  let ?ks = "first_keys (map (keyOf pf) ts)"
  show ?case
  proof (cases "keyOf pf t \<in> set (map (keyOf pf) ts)")
    case True
    then have "keyOf pf t \<in> set ?ks" by simp
    then have "map_set (keyOf pf t) t (map (\<lambda>k. (k, last_of_key pf k ts)) ?ks)
               = map (\<lambda>j. (j, if j = keyOf pf t then t else last_of_key pf j ts)) ?ks"
      using map_set_present [of ?ks "keyOf pf t" t "\<lambda>k. last_of_key pf k ts"] by simp
    with True snoc show ?thesis
      by (simp add: set_trade_def first_keys_snoc last_of_key_snoc eq_commute)
  next
    case False
    then have "keyOf pf t \<notin> set (map fst (map (\<lambda>k. (k, last_of_key pf k ts)) ?ks))"
      by (simp add: comp_def)
    then have "map_set (keyOf pf t) t (map (\<lambda>k. (k, last_of_key pf k ts)) ?ks)
               = map (\<lambda>k. (k, last_of_key pf k ts)) ?ks @ [(keyOf pf t, t)]"
      by (rule map_set_absent)
    with False snoc show ?thesis
      by (auto simp add: set_trade_def first_keys_snoc last_of_key_snoc)
  qed
qed

lemma foldl_add_trade:
  "foldl (add_trade pf A) m ts
   = foldl (set_trade pf) m
       (filter (\<lambda>t. truthy t \<and> set_has A (opt_get t ''fundCode'')) ts)"
  by (induction ts arbitrary: m) (simp_all add: add_trade_def set_trade_def)

lemma keyOf_last_of_key:
  "k \<in> set (map (keyOf pf) ts) \<Longrightarrow> keyOf pf (last_of_key pf k ts) = k"
proof -
  assume "k \<in> set (map (keyOf pf) ts)"
  then have ne: "filter (\<lambda>t. keyOf pf t = k) ts \<noteq> []"
    by (auto simp add: filter_empty_conv)
  from last_in_set [OF ne] show ?thesis
    by (simp add: last_of_key_def)
qed

lemma is_new_fund_new_Set [simp]: "is_new_fund (new_Set cs) = is_new_fund cs"
  by (rule ext) (simp add: is_new_fund_def)

lemma set_has_new_Set_fun [simp]: "set_has (new_Set xs) = set_has xs"
  by (rule ext) simp

lemma merge_components:
  assumes "truthy p" "truthy old" "mergeOldDataToPortfolio pf p old = Some r"
  obtains pfavs ofavs pgroups mergedGroups where
    "opt_get r ''funds'' =
       JArr (elements (opt_get p ''funds'')
             @ filter (is_new_fund (map code_of (elements (opt_get p ''funds''))))
                 (elements (opt_get old ''funds'')))"
    "array_spread (or_array (opt_get p ''favorites'')) = Some pfavs"
    "array_spread (or_array (opt_get old ''favorites'')) = Some ofavs"
    "opt_get r ''favorites'' = JArr (filter (set_has (fund_codes r)) (new_Set (pfavs @ ofavs)))"
    "array_spread (or_array (opt_get p ''groups'')) = Some pgroups"
    "merge_groups (new_Set (fund_codes r)) pgroups (elements (opt_get old ''groups''))
       = Some mergedGroups"
    "opt_get r ''groups'' = JArr mergedGroups"
    "opt_get r ''holdings'' =
       JObj (fmfilter (\<lambda>code. set_has (fund_codes r) (JStr code))
               (object_spread (or_object (opt_get p ''holdings''))
                  ++\<^sub>f object_spread (or_object (opt_get old ''holdings''))))"
    "opt_get r ''pendingTrades'' =
       JArr (map snd (foldl (set_trade pf) [] (retained_trades p old r)))"
  using assms(1) assms(2) assms(3)
proof (rule merge_SomeE)
  fix pfunds pcodes ofunds mcodes pfavs ofavs pgroups ogroups mergedGroups ptrades otrades
  assume pfunds: "array_method (or_array (opt_get p ''funds'')) = Some pfunds"
    and pcodes: "map_code pfunds = Some pcodes"
    and ofunds: "array_method (or_array (opt_get old ''funds'')) = Some ofunds"
    and mcodes: "map_code (pfunds @ filter (is_new_fund (new_Set pcodes)) ofunds) = Some mcodes"
    and pfavs: "array_spread (or_array (opt_get p ''favorites'')) = Some pfavs"
    and ofavs: "array_spread (or_array (opt_get old ''favorites'')) = Some ofavs"
    and pgroups: "array_spread (or_array (opt_get p ''groups'')) = Some pgroups"
    and ogroups: "array_method (or_array (opt_get old ''groups'')) = Some ogroups"
    and merged: "merge_groups (new_Set mcodes) pgroups ogroups = Some mergedGroups"
    and ptrades: "array_method (or_array (opt_get p ''pendingTrades'')) = Some ptrades"
    and otrades: "array_method (or_array (opt_get old ''pendingTrades'')) = Some otrades"
    and r: "r = JObj (object_spread p ++\<^sub>f fmap_of_list
            [(''funds'', JArr (pfunds @ filter (is_new_fund (new_Set pcodes)) ofunds)),
             (''favorites'', JArr (filter (set_has (new_Set mcodes)) (new_Set (pfavs @ ofavs)))),
             (''groups'', JArr mergedGroups),
             (''holdings'', JObj (fmfilter (\<lambda>code. set_has (new_Set mcodes) (JStr code))
                (object_spread (or_object (opt_get p ''holdings''))
                   ++\<^sub>f object_spread (or_object (opt_get old ''holdings''))))),
             (''pendingTrades'', JArr (map snd
                (foldl (add_trade pf (new_Set mcodes))
                   (foldl (add_trade pf (new_Set mcodes)) [] ptrades) otrades)))])"
  note el = array_method_elements [OF pfunds] array_method_elements [OF ofunds]
    array_method_elements [OF ogroups] array_method_elements [OF ptrades]
    array_method_elements [OF otrades]
  have pc: "pcodes = map code_of pfunds"
    using map_code_Some [OF pcodes] .
  have funds: "opt_get r ''funds'' = JArr (pfunds @ filter (is_new_fund pcodes) ofunds)"
    by (simp add: r)
  have codes: "fund_codes r = mcodes"
    using map_code_Some [OF mcodes] funds by (simp add: fund_codes_def)
  have favs: "opt_get r ''favorites'' = JArr (filter (set_has mcodes) (new_Set (pfavs @ ofavs)))"
    by (simp add: r)
  have holds: "opt_get r ''holdings'' =
       JObj (fmfilter (\<lambda>code. set_has mcodes (JStr code))
               (object_spread (or_object (opt_get p ''holdings''))
                  ++\<^sub>f object_spread (or_object (opt_get old ''holdings''))))"
    by (simp add: r)
  have pending: "foldl (add_trade pf (new_Set mcodes))
                   (foldl (add_trade pf (new_Set mcodes)) [] ptrades) otrades
                 = foldl (set_trade pf) [] (retained_trades p old r)"
    by (simp add: foldl_add_trade retained_trades_def retained_def codes el)
  show thesis
  proof (rule that)
    show "opt_get r ''funds'' =
       JArr (elements (opt_get p ''funds'')
             @ filter (is_new_fund (map code_of (elements (opt_get p ''funds''))))
                 (elements (opt_get old ''funds'')))"
      using funds pc el by simp
    show "array_spread (or_array (opt_get p ''favorites'')) = Some pfavs" by (rule pfavs)
    show "array_spread (or_array (opt_get old ''favorites'')) = Some ofavs" by (rule ofavs)
    show "opt_get r ''favorites'' =
            JArr (filter (set_has (fund_codes r)) (new_Set (pfavs @ ofavs)))"
      using favs codes by simp
    show "array_spread (or_array (opt_get p ''groups'')) = Some pgroups" by (rule pgroups)
    show "merge_groups (new_Set (fund_codes r)) pgroups (elements (opt_get old ''groups''))
            = Some mergedGroups"
      using merged codes el by simp
    show "opt_get r ''groups'' = JArr mergedGroups" by (simp add: r)
    show "opt_get r ''holdings'' =
       JObj (fmfilter (\<lambda>code. set_has (fund_codes r) (JStr code))
               (object_spread (or_object (opt_get p ''holdings''))
                  ++\<^sub>f object_spread (or_object (opt_get old ''holdings''))))"
      using holds codes by simp
    show "opt_get r ''pendingTrades'' =
            JArr (map snd (foldl (set_trade pf) [] (retained_trades p old r)))"
      using pending by (simp add: r)
  qed
qed

subsection \<open>The merged pending trades\<close>

lemma or_string_missing [simp]: "or_string (missing_as_empty v) = or_string v"
  by (simp add: or_string_def missing_as_empty_def)

lemma truthy_missing [simp]: "truthy (missing_as_empty v) = truthy v"
  by (simp add: missing_as_empty_def)

lemma keyOf_render: "keyOf pf t = render_key pf (trade_key_of t)"
  by (simp add: keyOf_def trade_key_of_def)

lemma last_of_key_append:
  "k \<in> set (map (keyOf pf) ys) \<Longrightarrow> last_of_key pf k (xs @ ys) = last_of_key pf k ys"
proof -
  assume "k \<in> set (map (keyOf pf) ys)"
  then have "filter (\<lambda>t. keyOf pf t = k) ys \<noteq> []"
    by (auto simp add: filter_empty_conv)
  then show ?thesis by (simp add: last_of_key_def)
qed

lemma last_of_key_append_absent:
  "k \<notin> set (map (keyOf pf) ys) \<Longrightarrow> last_of_key pf k (xs @ ys) = last_of_key pf k xs"
proof -
  assume "k \<notin> set (map (keyOf pf) ys)"
  then have "filter (\<lambda>t. keyOf pf t = k) ys = []"
    by (auto simp add: filter_empty_conv)
  then show ?thesis by (simp add: last_of_key_def)
qed

lemma pending_values:
  "map snd (foldl (set_trade pf) [] ts)
   = map (\<lambda>k. last_of_key pf k ts) (first_keys (map (keyOf pf) ts))"
  by (simp add: foldl_set_trade comp_def)

lemma pending_keys:
  "map (\<lambda>k. keyOf pf (last_of_key pf k ts)) (first_keys (map (keyOf pf) ts))
   = first_keys (map (keyOf pf) ts)"
proof (rule map_idI)
  fix k
  assume "k \<in> set (first_keys (map (keyOf pf) ts))"
  then show "keyOf pf (last_of_key pf k ts) = k"
    using keyOf_last_of_key [of k pf ts] by simp
qed

text \<open>
  Claim C5, amended. In the merge of the pending trades, the key of a trade is a string that
  is written from its identifier when that is truthy and from its six fields otherwise, a
  missing (or otherwise falsy) field counting as the empty string: trades with the same
  truthy identifier, or with the same six fields, have the same key, and so have trades whose
  identifiers or fields are written the same. The result holds one trade for each key of the
  retained trades, the last one of that key, the portfolio's trades coming before the legacy
  ones: a legacy trade takes the place of every portfolio trade of its key, and trades of
  one key collapse to one entry. The entries stand in the order in which their keys first
  occur: the keys of the portfolio's retained trades in their order, then the keys that only
  legacy trades have.
\<close>

theorem pending_merge:
  assumes "truthy p" "truthy old" "mergeOldDataToPortfolio pf p old = Some r"
  shows "opt_get r ''pendingTrades''
           = JArr (map (\<lambda>k. last_of_key pf k (retained_trades p old r))
                     (first_keys (map (keyOf pf) (retained_trades p old r))))
         \<and> map (keyOf pf) (elements (opt_get r ''pendingTrades''))
             = first_keys (map (keyOf pf) (retained r (elements (opt_get p ''pendingTrades''))))
               @ filter (\<lambda>k. k \<notin> set (map (keyOf pf)
                                        (retained r (elements (opt_get p ''pendingTrades'')))))
                   (first_keys (map (keyOf pf)
                      (retained r (elements (opt_get old ''pendingTrades'')))))
         \<and> distinct (map (keyOf pf) (elements (opt_get r ''pendingTrades'')))
         \<and> (\<forall>l \<in> set (retained r (elements (opt_get old ''pendingTrades''))).
               last_of_key pf (keyOf pf l) (retained_trades p old r)
               = last_of_key pf (keyOf pf l) (retained r (elements (opt_get old ''pendingTrades''))))
         \<and> (\<forall>t \<in> set (retained r (elements (opt_get p ''pendingTrades''))).
               keyOf pf t \<notin> set (map (keyOf pf)
                                    (retained r (elements (opt_get old ''pendingTrades''))))
               \<longrightarrow> last_of_key pf (keyOf pf t) (retained_trades p old r)
                   = last_of_key pf (keyOf pf t)
                       (retained r (elements (opt_get p ''pendingTrades''))))
         \<and> (\<forall>t. keyOf pf t = render_key pf (trade_key_of t))"
proof -
  let ?P = "retained r (elements (opt_get p ''pendingTrades''))"
  let ?L = "retained r (elements (opt_get old ''pendingTrades''))"
  from assms have out: "opt_get r ''pendingTrades''
      = JArr (map (\<lambda>k. last_of_key pf k (retained_trades p old r))
                (first_keys (map (keyOf pf) (retained_trades p old r))))"
    by (rule merge_components) (simp add: pending_values)
  then have keys: "map (keyOf pf) (elements (opt_get r ''pendingTrades''))
                   = first_keys (map (keyOf pf) (retained_trades p old r))"
    by (simp add: pending_keys comp_def)
  have split: "first_keys (map (keyOf pf) (retained_trades p old r))
               = first_keys (map (keyOf pf) ?P)
                 @ filter (\<lambda>k. k \<notin> set (map (keyOf pf) ?P)) (first_keys (map (keyOf pf) ?L))"
    by (simp add: retained_trades_def first_keys_append)
  have legacy: "\<forall>l \<in> set ?L. last_of_key pf (keyOf pf l) (retained_trades p old r)
                             = last_of_key pf (keyOf pf l) ?L"
    by (simp add: retained_trades_def last_of_key_append)
  have own: "\<forall>t \<in> set ?P. keyOf pf t \<notin> set (map (keyOf pf) ?L)
               \<longrightarrow> last_of_key pf (keyOf pf t) (retained_trades p old r)
                   = last_of_key pf (keyOf pf t) ?P"
    using last_of_key_append_absent [of _ pf ?L ?P] by (simp add: retained_trades_def)
  have order: "map (keyOf pf) (elements (opt_get r ''pendingTrades''))
               = first_keys (map (keyOf pf) ?P)
                 @ filter (\<lambda>k. k \<notin> set (map (keyOf pf) ?P)) (first_keys (map (keyOf pf) ?L))"
    by (simp only: keys split)
  have dist: "distinct (map (keyOf pf) (elements (opt_get r ''pendingTrades'')))"
    by (simp only: keys first_keys_distinct)
  have render: "\<forall>t. keyOf pf t = render_key pf (trade_key_of t)"
    by (simp add: keyOf_render)
  show ?thesis
    by (intro conjI) (rule out order dist legacy own render)+
qed

lemma trading_example:
  "mergeOldDataToPortfolio example_platform example_trading_portfolio example_trading_legacy
   = Some example_trading_merged"
  by code_simp

lemma trading_example_keys:
  "map (keyOf example_platform) (elements (opt_get example_trading_merged ''pendingTrades''))
   = [''id:t1'', ''k:A:buy::::0'', ''id:t9'']"
  by code_simp

theorem pending_merge_witness:
  "mergeOldDataToPortfolio example_platform example_trading_portfolio example_trading_legacy
     = Some example_trading_merged
   \<and> opt_get example_trading_merged ''pendingTrades''
       = JArr (map (\<lambda>k. last_of_key example_platform k
                           (retained_trades example_trading_portfolio example_trading_legacy
                              example_trading_merged))
                 (first_keys (map (keyOf example_platform)
                    (retained_trades example_trading_portfolio example_trading_legacy
                       example_trading_merged))))
   \<and> map (keyOf example_platform) (elements (opt_get example_trading_merged ''pendingTrades''))
       = [''id:t1'', ''k:A:buy::::0'', ''id:t9'']"
proof -
  have "truthy example_trading_portfolio" "truthy example_trading_legacy"
    by (simp_all add: example_trading_portfolio_def example_trading_legacy_def)
  from pending_merge [OF this trading_example] show ?thesis
    using trading_example trading_example_keys by simp
qed

subsection \<open>The referential invariant\<close>

lemma duplicates_example:
  "mergeOldDataToPortfolio example_platform example_duplicates (JObj fmempty)
   = Some example_duplicates_merged"
  by code_simp

lemma duplicates_not_distinct: "\<not> funds_distinct example_duplicates_merged"
  by code_simp

lemma duplicates_not_closed: "\<not> groups_closed example_duplicates_merged"
  by code_simp

lemma example_inputs_distinct:
  "funds_distinct example_portfolio" "coded_funds_distinct example_legacy"
  "groups_closed example_portfolio"
  by code_simp+

text \<open>Funds.\<close>

lemma same_value_zero_sym: "same_value_zero a b = same_value_zero b a"
  by (auto simp add: same_value_zero_def)

lemma no_shared_code_append:
  "no_shared_code (xs @ ys) =
     (no_shared_code xs \<and> no_shared_code ys
      \<and> (\<forall>x \<in> set xs. \<not> set_has (map code_of ys) (code_of x)))"
  by (induction xs) (auto simp add: set_has_iff)

lemma no_shared_code_filter: "no_shared_code fs \<Longrightarrow> no_shared_code (filter P fs)"
  by (induction fs) (auto simp add: set_has_iff)

lemma new_funds_coded:
  "filter (is_new_fund cs) fs
   = filter (is_new_fund cs) (filter (\<lambda>f. truthy f \<and> truthy (code_of f)) fs)"
  by (induction fs) (auto simp add: is_new_fund_def code_of_def)

lemma merged_funds_distinct:
  assumes "no_shared_code pfunds"
    and "no_shared_code (filter (\<lambda>f. truthy f \<and> truthy (code_of f)) ofunds)"
  shows "no_shared_code (pfunds @ filter (is_new_fund (map code_of pfunds)) ofunds)"
proof -
  have new: "no_shared_code (filter (is_new_fund (map code_of pfunds)) ofunds)"
    using no_shared_code_filter [OF assms(2)] new_funds_coded [of "map code_of pfunds" ofunds]
    by simp
  have "\<not> set_has (map code_of (filter (is_new_fund (map code_of pfunds)) ofunds)) (code_of x)"
    if "x \<in> set pfunds" for x
  proof
    assume "set_has (map code_of (filter (is_new_fund (map code_of pfunds)) ofunds)) (code_of x)"
    then obtain y where y: "y \<in> set ofunds" "is_new_fund (map code_of pfunds) y"
      and same: "same_value_zero (code_of y) (code_of x)"
      by (auto simp add: set_has_iff)
    from same that have "set_has (map code_of pfunds) (code_of y)"
      by (auto simp add: set_has_iff same_value_zero_sym [of "code_of y"])
    with y(2) show False
      by (simp add: is_new_fund_def code_of_def)
  qed
  with assms(1) new show ?thesis
    by (simp add: no_shared_code_append)
qed

text \<open>Pending trades.\<close>

lemma last_of_key_member:
  "k \<in> set (map (keyOf pf) ts) \<Longrightarrow> last_of_key pf k ts \<in> set ts"
proof -
  assume "k \<in> set (map (keyOf pf) ts)"
  then have ne: "filter (\<lambda>t. keyOf pf t = k) ts \<noteq> []"
    by (auto simp add: filter_empty_conv)
  from last_in_set [OF ne] show ?thesis
    by (simp add: last_of_key_def)
qed

lemma pending_subset: "set (map snd (foldl (set_trade pf) [] ts)) \<subseteq> set ts"
  using last_of_key_member [of _ pf ts] by (auto simp add: pending_values)

text \<open>Groups.\<close>

lemma findIndex_id_bound: "findIndex_id gs inc = Some (Some i) \<Longrightarrow> i < length gs"
proof (induction gs arbitrary: i)
  case Nil
  then show ?case by simp
next
  case (Cons g gs)
  then show ?case
    by (auto split: Option.bind_splits if_splits)
qed

lemma closed_group_literal:
  "group_closed r (JObj (fmupd ''codes'' (JArr (filter (set_has (fund_codes r)) cs)) m))"
  by (auto simp add: group_closed_def list_all_iff dest: set_has_member)

lemma merge_group_step:
  assumes "merge_group (new_Set (fund_codes r)) gs inc = Some gs'"
  shows "length gs \<le> length gs'"
    and "i < length gs' \<Longrightarrow> group_closed r (gs' ! i) \<or> (i < length gs \<and> gs' ! i = gs ! i)"
proof -
  from assms obtain idx where idx: "findIndex_id gs inc = Some idx"
    by (auto simp add: merge_group_def split: Option.bind_splits)
  show "length gs \<le> length gs'"
    using assms idx
    by (cases idx) (auto simp add: merge_group_def split: Option.bind_splits)
  show "group_closed r (gs' ! i) \<or> (i < length gs \<and> gs' ! i = gs ! i)" if "i < length gs'"
  proof (cases idx)
    case None
    with assms idx obtain cs m where "gs' = gs @ [JObj (fmupd ''codes''
        (JArr (filter (set_has (fund_codes r)) cs)) m)]"
      by (auto simp add: merge_group_def split: Option.bind_splits)
    with that show ?thesis
      by (cases "i < length gs") (auto simp add: nth_append closed_group_literal)
  next
    case (Some j)
    with assms idx obtain cs m where gs': "gs' = gs[j := JObj (fmupd ''codes''
        (JArr (filter (set_has (fund_codes r)) cs)) m)]"
      by (auto simp add: merge_group_def split: Option.bind_splits)
    from Some idx have "j < length gs" by (simp add: findIndex_id_bound)
    with that gs' show ?thesis
      by (cases "i = j") (auto simp add: closed_group_literal)
  qed
qed

lemma merge_groups_inv:
  assumes "merge_groups (new_Set (fund_codes r)) gs incs = Some gs'"
    and "\<forall>i < length gs. group_closed r (gs ! i) \<or> (i < length pg \<and> gs ! i = pg ! i)"
  shows "\<forall>i < length gs'. group_closed r (gs' ! i) \<or> (i < length pg \<and> gs' ! i = pg ! i)"
  using assms
proof (induction incs arbitrary: gs)
  case Nil
  then show ?case by simp
next
  case (Cons inc incs)
  from Cons.prems(1) obtain mid where
    mid: "merge_group (new_Set (fund_codes r)) gs inc = Some mid"
    and rest: "merge_groups (new_Set (fund_codes r)) mid incs = Some gs'"
    by (auto split: Option.bind_splits)
  have "\<forall>i < length mid. group_closed r (mid ! i) \<or> (i < length pg \<and> mid ! i = pg ! i)"
    using merge_group_step(2) [OF mid] Cons.prems(2) by metis
  with rest show ?case by (rule Cons.IH)
qed

lemma array_spread_groups:
  assumes "array_spread (or_array v) = Some xs"
  shows "\<forall>i < length xs. group_closed r (xs ! i) \<or> (i < length (elements v) \<and> xs ! i = elements v ! i)"
proof (cases v)
  case (JStr s)
  with assms have "xs = map (\<lambda>c. JStr [c]) s \<or> xs = []"
    by (auto simp add: or_array_def split: if_splits)
  then show ?thesis
    by (auto simp add: group_closed_def)
next
  case (JArr ys)
  with assms show ?thesis by (simp add: or_array_def)
qed (use assms in \<open>auto simp add: or_array_def split: if_splits\<close>)

text \<open>
  Claim C1, amended. Every favorite, every key of the holdings and the fund of every pending
  trade of the merged portfolio is the code of one of its funds. Every group of the merged
  portfolio either has only codes of its funds, or is a group of the given portfolio that
  stands where it stood, as it was (no legacy group has its id). If no two funds of the given
  portfolio share a code, and no two legacy funds with a truthy code do, then no two funds of
  the merged portfolio share a code. So the merge keeps the invariant: if moreover the groups
  of the given portfolio have only codes of its funds, the merged portfolio satisfies the
  whole invariant.
\<close>

theorem merge_closure:
  assumes "truthy p" "truthy old" "mergeOldDataToPortfolio pf p old = Some r"
  shows "favorites_closed r \<and> holdings_closed r \<and> pending_closed r
         \<and> groups_closed_or_carried p r
         \<and> (funds_distinct p \<and> coded_funds_distinct old \<longrightarrow> funds_distinct r)
         \<and> (funds_distinct p \<and> coded_funds_distinct old \<and> groups_closed p
              \<longrightarrow> merge_invariant r)"
  using assms
proof (rule merge_components)
  fix pfavs ofavs pgroups mergedGroups
  assume funds: "opt_get r ''funds'' =
       JArr (elements (opt_get p ''funds'')
             @ filter (is_new_fund (map code_of (elements (opt_get p ''funds''))))
                 (elements (opt_get old ''funds'')))"
    and favs: "opt_get r ''favorites''
                 = JArr (filter (set_has (fund_codes r)) (new_Set (pfavs @ ofavs)))"
    and pgroups: "array_spread (or_array (opt_get p ''groups'')) = Some pgroups"
    and merged: "merge_groups (new_Set (fund_codes r)) pgroups (elements (opt_get old ''groups''))
                   = Some mergedGroups"
    and groups: "opt_get r ''groups'' = JArr mergedGroups"
    and holds: "opt_get r ''holdings'' =
       JObj (fmfilter (\<lambda>code. set_has (fund_codes r) (JStr code))
               (object_spread (or_object (opt_get p ''holdings''))
                  ++\<^sub>f object_spread (or_object (opt_get old ''holdings''))))"
    and pending: "opt_get r ''pendingTrades'' =
       JArr (map snd (foldl (set_trade pf) [] (retained_trades p old r)))"
  have c1: "favorites_closed r"
    by (auto simp add: favorites_closed_def favs list_all_iff dest: set_has_member)
  have c2: "holdings_closed r"
    by (auto simp add: holdings_closed_def holds dest: set_has_member)
  have "set_has (fund_codes r) (opt_get t ''fundCode'')"
    if "t \<in> set (map snd (foldl (set_trade pf) [] (retained_trades p old r)))" for t
    using that pending_subset [of pf "retained_trades p old r"]
    by (auto simp add: retained_trades_def retained_def)
  then have c3: "pending_closed r"
    by (auto simp add: pending_closed_def pending list_all_iff dest: set_has_member)
  have each: "\<forall>i < length mergedGroups.
          group_closed r (mergedGroups ! i)
          \<or> (i < length (elements (opt_get p ''groups''))
              \<and> mergedGroups ! i = elements (opt_get p ''groups'') ! i)"
    using merged array_spread_groups [OF pgroups] by (rule merge_groups_inv)
  then have c4: "groups_closed_or_carried p r"
    by (simp add: groups_closed_or_carried_def carried_over_def groups list_all_iff)
  have c5: "funds_distinct p \<and> coded_funds_distinct old \<longrightarrow> funds_distinct r"
    by (simp add: funds_distinct_def coded_funds_distinct_def funds merged_funds_distinct)
  have grow: "set (fund_codes p) \<subseteq> set (fund_codes r)"
    by (simp add: fund_codes_def funds)
  have c6: "groups_closed r" if "groups_closed p"
    unfolding groups_closed_def groups list_all_length
  proof (intro allI impI)
    fix i
    assume i: "i < length (elements (JArr mergedGroups))"
    then have "group_closed r (mergedGroups ! i)
          \<or> (i < length (elements (opt_get p ''groups''))
              \<and> mergedGroups ! i = elements (opt_get p ''groups'') ! i)"
      using each by simp
    then show "group_closed r (elements (JArr mergedGroups) ! i)"
    proof
      assume "group_closed r (mergedGroups ! i)"
      then show ?thesis by simp
    next
      assume carried: "i < length (elements (opt_get p ''groups''))
              \<and> mergedGroups ! i = elements (opt_get p ''groups'') ! i"
      with that have "group_closed p (mergedGroups ! i)"
        by (simp add: groups_closed_def list_all_length)
      with grow show ?thesis
        by (auto simp add: group_closed_def list_all_iff)
    qed
  qed
  from c1 c2 c3 c4 c5 c6 show ?thesis
    by (simp add: merge_invariant_def)
qed

theorem merge_closure_witness:
  "mergeOldDataToPortfolio example_platform example_portfolio example_legacy
     = Some example_merged
   \<and> funds_distinct example_portfolio \<and> coded_funds_distinct example_legacy
   \<and> funds_distinct example_merged \<and> favorites_closed example_merged
   \<and> holdings_closed example_merged \<and> pending_closed example_merged
   \<and> groups_closed_or_carried example_portfolio example_merged
   \<and> groups_closed example_portfolio \<and> merge_invariant example_merged"
proof -
  have "truthy example_portfolio" "truthy example_legacy"
    by (simp_all add: example_portfolio_def example_legacy_def)
  from merge_closure [OF this merge_example] show ?thesis
    using merge_example example_inputs_distinct by simp
qed

text \<open>
  The invariant as the specification states it fails on a portfolio that comes with two
  funds of one code and with a group that names a code of no fund: the merge leaves both as
  they are.
\<close>

theorem merge_invariant_counterexample:
  "mergeOldDataToPortfolio example_platform example_duplicates (JObj fmempty)
     = Some example_duplicates_merged
   \<and> \<not> funds_distinct example_duplicates_merged
   \<and> \<not> groups_closed example_duplicates_merged
   \<and> \<not> merge_invariant example_duplicates_merged"
  using duplicates_example duplicates_not_distinct duplicates_not_closed
  by (simp add: merge_invariant_def)

text \<open>
  Two trades without identifier that differ in their fields and have the same key: the
  legacy one takes the place of the portfolio's, where the keys of the specification keep
  both.
\<close>

theorem pending_key_counterexample:
  "mergeOldDataToPortfolio example_platform example_colliding_portfolio example_colliding_legacy
     = Some example_colliding_merged
   \<and> trade_key_of example_morning_trade \<noteq> trade_key_of example_colliding_trade
   \<and> keyOf example_platform example_morning_trade
       = keyOf example_platform example_colliding_trade
   \<and> retained_trades example_colliding_portfolio example_colliding_legacy
         example_colliding_merged = [example_morning_trade, example_colliding_trade]
   \<and> pending_by_key [example_morning_trade, example_colliding_trade]
       = [example_morning_trade, example_colliding_trade]
   \<and> elements (opt_get example_colliding_merged ''pendingTrades'') = [example_colliding_trade]"
  by code_simp

end
